theory Spec2Isabelle
  imports Complex_Main
begin

section \<open>Numbers\<close>

text \<open>
  A \<^verbatim>\<open>number\<close> field of a recipe holds a finite double, modelled as the real it
  denotes. The value of an arithmetic expression is a \<open>jsnum\<close>, which adds the two
  infinities and NaN. The operators follow IEEE 754 on these special values. On finite
  operands the exact result overflows to an infinity where a double does: when its
  magnitude reaches \<^verbatim>\<open>2^1024 - 2^970\<close>, half a unit in the last place above the
  largest double. Below that the result is kept exact: its rounding to 53 bits, and
  with it underflow, is not modelled. There is one zero: every divisor of the program is
  \<^verbatim>\<open>1 - x\<close> or an array length, which is never the negative zero.
\<close>

datatype jsnum = Fin real | PInf | NInf | NaN

definition overflow_bound :: real where
  "overflow_bound = 2 ^ 1024 - 2 ^ 970"

definition to_double :: "real \<Rightarrow> jsnum" where
  "to_double x =
     (if overflow_bound \<le> x then PInf else if x \<le> - overflow_bound then NInf else Fin x)"

fun js_neg :: "jsnum \<Rightarrow> jsnum" where
  "js_neg (Fin a) = Fin (- a)"
| "js_neg PInf = NInf"
| "js_neg NInf = PInf"
| "js_neg NaN = NaN"

fun js_add :: "jsnum \<Rightarrow> jsnum \<Rightarrow> jsnum" where
  "js_add (Fin a) (Fin b) = to_double (a + b)"
| "js_add NaN _ = NaN"
| "js_add _ NaN = NaN"
| "js_add PInf NInf = NaN"
| "js_add NInf PInf = NaN"
| "js_add PInf _ = PInf"
| "js_add _ PInf = PInf"
| "js_add NInf _ = NInf"
| "js_add _ NInf = NInf"

definition js_sub :: "jsnum \<Rightarrow> jsnum \<Rightarrow> jsnum" where
  "js_sub a b = js_add a (js_neg b)"

definition signed_inf :: "bool \<Rightarrow> jsnum" where
  "signed_inf positive = (if positive then PInf else NInf)"

fun js_mul :: "jsnum \<Rightarrow> jsnum \<Rightarrow> jsnum" where
  "js_mul (Fin a) (Fin b) = to_double (a * b)"
| "js_mul NaN _ = NaN"
| "js_mul _ NaN = NaN"
| "js_mul (Fin a) PInf = (if a = 0 then NaN else signed_inf (0 < a))"
| "js_mul (Fin a) NInf = (if a = 0 then NaN else signed_inf (a < 0))"
| "js_mul PInf (Fin b) = (if b = 0 then NaN else signed_inf (0 < b))"
| "js_mul NInf (Fin b) = (if b = 0 then NaN else signed_inf (b < 0))"
| "js_mul PInf PInf = PInf"
| "js_mul NInf NInf = PInf"
| "js_mul PInf NInf = NInf"
| "js_mul NInf PInf = NInf"

fun js_div :: "jsnum \<Rightarrow> jsnum \<Rightarrow> jsnum" where
  "js_div (Fin a) (Fin b) =
     (if b = 0 then (if a = 0 then NaN else signed_inf (0 < a)) else to_double (a / b))"
| "js_div NaN _ = NaN"
| "js_div _ NaN = NaN"
| "js_div (Fin a) PInf = Fin 0"
| "js_div (Fin a) NInf = Fin 0"
| "js_div PInf (Fin b) = signed_inf (0 \<le> b)"
| "js_div NInf (Fin b) = signed_inf (b < 0)"
| "js_div PInf PInf = NaN"
| "js_div PInf NInf = NaN"
| "js_div NInf PInf = NaN"
| "js_div NInf NInf = NaN"

text \<open>
  The sum \<open>\<Sigma>\<close> of the specification over a list of terms, added from 0 in the order
  of the list: with overflow the order of the additions matters.
\<close>

fun sum_from :: "jsnum \<Rightarrow> jsnum list \<Rightarrow> jsnum" where
  "sum_from acc [] = acc"
| "sum_from acc (x # xs) = sum_from (js_add acc x) xs"

definition js_sum :: "jsnum list \<Rightarrow> jsnum" where
  "js_sum xs = sum_from (Fin 0) xs"

section \<open>The data model (interfaces Recipe, CostSummary, RecipeCostBreakdown)\<close>

text \<open>
  \<open>calculateRecipeCost\<close> defaults \<^verbatim>\<open>waste_factor\<close> and \<^verbatim>\<open>unit_of_measure\<close> with
  \<^verbatim>\<open>||\<close>: the code itself takes these two fields as possibly unset, so they range
  over \<^verbatim>\<open>undefined\<close>, \<^verbatim>\<open>null\<close> and a value. Every other field has its declared type.
\<close>

datatype 'a nullable = Undefined | Null | Value 'a

record Dimensions =
  dim_length :: real
  width :: real
  height :: real
  dim_unit :: string

record Part =
  part_name :: string
  quantity :: real
  cost_per_unit :: real

record Labor =
  labor_type :: string
  cost_per_hour :: real
  hours_needed :: real

record Recipe =
  rec_id :: string
  rec_name :: string
  weight :: real
  dimensions :: Dimensions
  yield_percentage :: real
  waste_factor :: "real nullable"
  unit_of_measure :: "string nullable"
  inventory_location :: string
  parts :: "Part list"
  labor :: "Labor list"
  created_at :: string
  updated_at :: string

record CostSummary =
  subtotal :: jsnum
  cs_waste_factor :: "real nullable"
  waste_amount :: jsnum
  total :: jsnum
  currency :: string
  cs_unit_of_measure :: string

record RecipeCostBreakdown =
  recipe_id :: string
  recipe_name :: string
  cost_summary :: CostSummary

datatype error = Error string | TypeError

section \<open>The cost engine\<close>

text \<open>\<^verbatim>\<open>x || d\<close> on a number: 0, \<^verbatim>\<open>null\<close> and \<^verbatim>\<open>undefined\<close> are falsy.\<close>

fun num_or :: "real nullable \<Rightarrow> real \<Rightarrow> real" where
  "num_or (Value x) d = (if x = 0 then d else x)"
| "num_or Undefined d = d"
| "num_or Null d = d"

text \<open>\<^verbatim>\<open>s || d\<close> on a string: the empty string, \<^verbatim>\<open>null\<close> and \<^verbatim>\<open>undefined\<close> are falsy.\<close>

fun str_or :: "string nullable \<Rightarrow> string \<Rightarrow> string" where
  "str_or (Value s) d = (if s = [] then d else s)"
| "str_or Undefined d = d"
| "str_or Null d = d"

text \<open>
  \<open>calculateRecipeCost\<close> (index.ts, lines 115-144). \<open>None\<close> is a recipe that is
  \<^verbatim>\<open>null\<close> or \<^verbatim>\<open>undefined\<close>, the only falsy values of an object type. Each
  \<^verbatim>\<open>reduce\<close> is a left fold from 0.
\<close>

definition partsCost :: "Recipe \<Rightarrow> jsnum" where
  "partsCost recipe =
     foldl (\<lambda>total part. js_add total (js_mul (Fin (quantity part)) (Fin (cost_per_unit part))))
       (Fin 0) (parts recipe)"

definition laborCost :: "Recipe \<Rightarrow> jsnum" where
  "laborCost recipe =
     foldl (\<lambda>total job. js_add total (js_mul (Fin (hours_needed job)) (Fin (cost_per_hour job))))
       (Fin 0) (labor recipe)"

definition calculateRecipeCost :: "Recipe option \<Rightarrow> error + RecipeCostBreakdown" where
  "calculateRecipeCost r =
     (case r of
        None \<Rightarrow> Inl (Error ''Recipe is required for cost calculation'')
      | Some recipe \<Rightarrow>
          (let subtotal = js_add (partsCost recipe) (laborCost recipe);
               costWithWaste =
                 js_div subtotal (js_sub (Fin 1) (Fin (num_or (waste_factor recipe) 0)));
               wasteAmount = js_sub costWithWaste subtotal
           in Inr \<lparr> recipe_id = rec_id recipe,
                    recipe_name = rec_name recipe,
                    cost_summary =
                      \<lparr> subtotal = subtotal,
                        cs_waste_factor = waste_factor recipe,
                        waste_amount = wasteAmount,
                        total = costWithWaste,
                        currency = ''USD'',
                        cs_unit_of_measure = str_or (unit_of_measure recipe) ''piece'' \<rparr> \<rparr>))"

section \<open>Request payloads\<close>

text \<open>
  The validators take \<^verbatim>\<open>any\<close>: a payload is a JavaScript value as
  \<^verbatim>\<open>request.json()\<close> yields it, or \<^verbatim>\<open>undefined\<close>. An object is the list of its own
  properties, the first binding of a name being the property's value. A number of a
  payload is finite, a real: JSON has no literal for NaN or an infinity.
\<close>

datatype jsval =
    JUndefined
  | JNull
  | JBool bool
  | JNum real
  | JStr string
  | JArr "jsval list"
  | JObj "(string \<times> jsval) list"

fun truthy :: "jsval \<Rightarrow> bool" where
  "truthy JUndefined = False"
| "truthy JNull = False"
| "truthy (JBool b) = b"
| "truthy (JNum x) = (x \<noteq> 0)"
| "truthy (JStr s) = (s \<noteq> [])"
| "truthy (JArr xs) = True"
| "truthy (JObj kvs) = True"

fun typeof_js :: "jsval \<Rightarrow> string" where
  "typeof_js JUndefined = ''undefined''"
| "typeof_js JNull = ''object''"
| "typeof_js (JBool b) = ''boolean''"
| "typeof_js (JNum x) = ''number''"
| "typeof_js (JStr s) = ''string''"
| "typeof_js (JArr xs) = ''object''"
| "typeof_js (JObj kvs) = ''object''"

text \<open>
  \<^verbatim>\<open>v.k\<close>: reading a property of \<^verbatim>\<open>null\<close> or \<^verbatim>\<open>undefined\<close> raises a TypeError; a
  name an object does not have reads as \<^verbatim>\<open>undefined\<close>. The names the program reads
  are its fixed field names, none of them an index of an array or a property of a
  prototype, so an array and a string have \<^verbatim>\<open>length\<close> alone.
\<close>

fun get_prop :: "jsval \<Rightarrow> string \<Rightarrow> error + jsval" where
  "get_prop JUndefined k = Inl TypeError"
| "get_prop JNull k = Inl TypeError"
| "get_prop (JBool b) k = Inr JUndefined"
| "get_prop (JNum x) k = Inr JUndefined"
| "get_prop (JStr s) k = Inr (if k = ''length'' then JNum (real (length s)) else JUndefined)"
| "get_prop (JArr xs) k = Inr (if k = ''length'' then JNum (real (length xs)) else JUndefined)"
| "get_prop (JObj kvs) k = Inr (case map_of kvs k of None \<Rightarrow> JUndefined | Some v \<Rightarrow> v)"

text \<open>
  \<^verbatim>\<open>k in v\<close>: a TypeError unless \<open>v\<close> is an object (an array is one). It is asked
  of the required field names only, which are no indices.
\<close>

fun has_prop :: "string \<Rightarrow> jsval \<Rightarrow> error + bool" where
  "has_prop k (JObj kvs) = Inr (map_of kvs k \<noteq> None)"
| "has_prop k (JArr xs) = Inr (k = ''length'')"
| "has_prop k JUndefined = Inl TypeError"
| "has_prop k JNull = Inl TypeError"
| "has_prop k (JBool b) = Inl TypeError"
| "has_prop k (JNum x) = Inl TypeError"
| "has_prop k (JStr s) = Inl TypeError"

text \<open>An exception ends the evaluation: what follows runs on a value only.\<close>

definition bind_err :: "error + 'a \<Rightarrow> ('a \<Rightarrow> error + 'b) \<Rightarrow> error + 'b" where
  "bind_err m f = (case m of Inl e \<Rightarrow> Inl e | Inr x \<Rightarrow> f x)"

text \<open>\<^verbatim>\<open>a || b\<close> on conditions: \<open>b\<close> is evaluated only when \<open>a\<close> is false.\<close>

definition js_or_else :: "error + bool \<Rightarrow> error + bool \<Rightarrow> error + bool" where
  "js_or_else a b = bind_err a (\<lambda>x. if x then Inr True else b)"

text \<open>\<^verbatim>\<open>!v.k\<close> and \<^verbatim>\<open>v.k === undefined\<close>.\<close>

definition not_prop :: "jsval \<Rightarrow> string \<Rightarrow> error + bool" where
  "not_prop v k = bind_err (get_prop v k) (\<lambda>x. Inr (\<not> truthy x))"

definition prop_undefined :: "jsval \<Rightarrow> string \<Rightarrow> error + bool" where
  "prop_undefined v k = bind_err (get_prop v k) (\<lambda>x. Inr (x = JUndefined))"

text \<open>\<^verbatim>\<open>xs.filter(f)\<close> and \<^verbatim>\<open>xs.some(f)\<close>, in order; \<^verbatim>\<open>some\<close> stops at the first hit.\<close>

fun filter_js :: "('a \<Rightarrow> error + bool) \<Rightarrow> 'a list \<Rightarrow> error + 'a list" where
  "filter_js f [] = Inr []"
| "filter_js f (x # xs) =
     bind_err (f x) (\<lambda>keep.
     bind_err (filter_js f xs) (\<lambda>ys. Inr (if keep then x # ys else ys)))"

fun some_js :: "('a \<Rightarrow> error + bool) \<Rightarrow> 'a list \<Rightarrow> error + bool" where
  "some_js f [] = Inr False"
| "some_js f (x # xs) = js_or_else (f x) (some_js f xs)"

fun join_js :: "string list \<Rightarrow> string \<Rightarrow> string" where
  "join_js [] sep = []"
| "join_js [x] sep = x"
| "join_js (x # y # ys) sep = x @ sep @ join_js (y # ys) sep"

section \<open>Validation\<close>

record ValidationResult =
  valid :: bool
  message :: "string option"

definition ok_result :: ValidationResult where
  "ok_result = \<lparr> valid = True, message = None \<rparr>"

definition invalid_result :: "string \<Rightarrow> ValidationResult" where
  "invalid_result msg = \<lparr> valid = False, message = Some msg \<rparr>"

definition requiredFields :: "string list" where
  "requiredFields =
     [''name'', ''weight'', ''dimensions'', ''yield_percentage'',
      ''waste_factor'', ''unit_of_measure'', ''inventory_location'',
      ''parts'', ''labor'']"

text \<open>
  The four property tests shared by both validators, after their guards:
  \<^verbatim>\<open>typeof dims !== 'object' || !dims.length || !dims.width || !dims.height || !dims.unit\<close>.
\<close>

definition dims_malformed :: "jsval \<Rightarrow> error + bool" where
  "dims_malformed dims =
     js_or_else (Inr (typeof_js dims \<noteq> ''object''))
    (js_or_else (not_prop dims ''length'')
    (js_or_else (not_prop dims ''width'')
    (js_or_else (not_prop dims ''height'')
                (not_prop dims ''unit''))))"

text \<open>The predicates given to \<^verbatim>\<open>some\<close> (lines 69 and 73, again at 89 and 95).\<close>

definition part_invalid :: "jsval \<Rightarrow> error + bool" where
  "part_invalid part =
     js_or_else (not_prop part ''name'')
    (js_or_else (prop_undefined part ''quantity'')
                (prop_undefined part ''cost_per_unit''))"

definition labor_invalid :: "jsval \<Rightarrow> error + bool" where
  "labor_invalid job =
     js_or_else (not_prop job ''type'')
    (js_or_else (prop_undefined job ''cost_per_hour'')
                (prop_undefined job ''hours_needed''))"

text \<open>\<^verbatim>\<open>!Array.isArray(v) || v.some(f)\<close>.\<close>

fun array_invalid :: "(jsval \<Rightarrow> error + bool) \<Rightarrow> jsval \<Rightarrow> error + bool" where
  "array_invalid f (JArr xs) = some_js f xs"
| "array_invalid f v = Inr True"

definition dims_message :: string where
  "dims_message = ''Invalid dimensions object. Must include length, width, height, and unit''"

definition parts_message :: string where
  "parts_message = ''Invalid parts array. Each part must have name, quantity, and cost_per_unit''"

definition labor_message :: string where
  "labor_message =
     ''Invalid labor array. Each labor item must have type, cost_per_hour, and hours_needed''"

text \<open>\<open>validateRecipe\<close> (lines 52-78).\<close>

definition validateRecipe :: "jsval \<Rightarrow> error + ValidationResult" where
  "validateRecipe recipe =
     bind_err (filter_js (\<lambda>field. bind_err (has_prop field recipe) (\<lambda>b. Inr (\<not> b)))
                 requiredFields) (\<lambda>missingFields.
     if length missingFields > 0
     then Inr (invalid_result (''Missing required fields: '' @ join_js missingFields '', ''))
     else
     bind_err (get_prop recipe ''dimensions'') (\<lambda>dims.
     bind_err (js_or_else (Inr (\<not> truthy dims)) (dims_malformed dims)) (\<lambda>bad_dims.
     if bad_dims then Inr (invalid_result dims_message)
     else
     bind_err (get_prop recipe ''parts'') (\<lambda>ps.
     bind_err (array_invalid part_invalid ps) (\<lambda>bad_parts.
     if bad_parts then Inr (invalid_result parts_message)
     else
     bind_err (get_prop recipe ''labor'') (\<lambda>ls.
     bind_err (array_invalid labor_invalid ls) (\<lambda>bad_labor.
     if bad_labor then Inr (invalid_result labor_message)
     else Inr ok_result)))))))"

text \<open>
  \<open>validatePartialRecipe\<close> (lines 80-113). A range test such as
  \<^verbatim>\<open>typeof w !== 'number' || w < 0\<close> compares only a number.
\<close>

fun not_number_or :: "(real \<Rightarrow> bool) \<Rightarrow> jsval \<Rightarrow> bool" where
  "not_number_or out_of_range (JNum x) = out_of_range x"
| "not_number_or out_of_range v = True"

definition validatePartialRecipe :: "jsval \<Rightarrow> error + ValidationResult" where
  "validatePartialRecipe recipe =
     bind_err (get_prop recipe ''dimensions'') (\<lambda>dims.
     bind_err (if dims \<noteq> JUndefined \<and> truthy dims then dims_malformed dims else Inr False)
       (\<lambda>bad_dims.
     if bad_dims then Inr (invalid_result dims_message)
     else
     bind_err (get_prop recipe ''parts'') (\<lambda>ps.
     bind_err (if ps \<noteq> JUndefined then array_invalid part_invalid ps else Inr False)
       (\<lambda>bad_parts.
     if bad_parts then Inr (invalid_result parts_message)
     else
     bind_err (get_prop recipe ''labor'') (\<lambda>ls.
     bind_err (if ls \<noteq> JUndefined then array_invalid labor_invalid ls else Inr False)
       (\<lambda>bad_labor.
     if bad_labor then Inr (invalid_result labor_message)
     else
     bind_err (get_prop recipe ''weight'') (\<lambda>w.
     if w \<noteq> JUndefined \<and> not_number_or (\<lambda>x. x < 0) w
     then Inr (invalid_result ''Weight must be a positive number'')
     else
     bind_err (get_prop recipe ''yield_percentage'') (\<lambda>y.
     if y \<noteq> JUndefined \<and> not_number_or (\<lambda>x. x < 0 \<or> x > 100) y
     then Inr (invalid_result ''Yield percentage must be a number between 0 and 100'')
     else
     bind_err (get_prop recipe ''waste_factor'') (\<lambda>waste.
     if waste \<noteq> JUndefined \<and> not_number_or (\<lambda>x. x < 0 \<or> x \<ge> 1) waste
     then Inr (invalid_result ''Waste factor must be a number between 0 and 1'')
     else Inr ok_result)))))))))"

section \<open>The store\<close>

text \<open>
  The relational store behind \<^verbatim>\<open>env.DB\<close>: the three tables the SQL statements of
  the program name, each a list of rows in insertion order, a row giving a value to every
  column. The store keeps a bound value as it is and gives it back unchanged.
\<close>

type_synonym row = "(string \<times> jsval) list"

record DB =
  recipes :: "row list"
  recipe_parts :: "row list"
  recipe_labor :: "row list"

definition col :: "row \<Rightarrow> string \<Rightarrow> jsval" where
  "col r c = (case map_of r c of None \<Rightarrow> JUndefined | Some v \<Rightarrow> v)"

text \<open>\<^verbatim>\<open>WHERE c = ?\<close> bound to the string \<open>v\<close>.\<close>

definition col_is :: "string \<Rightarrow> string \<Rightarrow> row \<Rightarrow> bool" where
  "col_is c v r = (map_of r c = Some (JStr v))"

text \<open>\<^verbatim>\<open>SELECT c1, c2, ... FROM table WHERE recipe_id = ?\<close>, all rows.\<close>

definition select_children :: "string list \<Rightarrow> string \<Rightarrow> row list \<Rightarrow> jsval list" where
  "select_children cols rid table =
     map (\<lambda>r. JObj (map (\<lambda>c. (c, col r c)) cols)) (filter (col_is ''recipe_id'' rid) table)"

definition part_cols :: "string list" where
  "part_cols = [''name'', ''quantity'', ''cost_per_unit'']"

definition labor_cols :: "string list" where
  "labor_cols = [''type'', ''cost_per_hour'', ''hours_needed'']"




section \<open>The repository\<close>

text \<open>\<^verbatim>\<open>a || b\<close> on values.\<close>

definition js_or :: "jsval \<Rightarrow> jsval \<Rightarrow> jsval" where
  "js_or a b = (if truthy a then a else b)"

text \<open>\<open>getRecipeById\<close> (lines 170-206); \<open>JNull\<close> when no row has the id.\<close>

definition getRecipeById :: "string \<Rightarrow> DB \<Rightarrow> jsval" where
  "getRecipeById rid db =
     (case find (col_is ''id'' rid) (recipes db) of
        None \<Rightarrow> JNull
      | Some recipeResult \<Rightarrow>
          JObj
           [(''id'', col recipeResult ''id''),
            (''name'', js_or (col recipeResult ''name'') (JStr [])),
            (''weight'', js_or (col recipeResult ''weight'') (JNum 0)),
            (''dimensions'', JObj
               [(''length'', js_or (col recipeResult ''length_unit'') (JNum 0)),
                (''width'', js_or (col recipeResult ''width'') (JNum 0)),
                (''height'', js_or (col recipeResult ''height'') (JNum 0)),
                (''unit'', js_or (col recipeResult ''dimension_unit'') (JStr []))]),
            (''yield_percentage'', js_or (col recipeResult ''yield_percentage'') (JNum 0)),
            (''waste_factor'', js_or (col recipeResult ''waste_factor'') (JNum 0)),
            (''unit_of_measure'', js_or (col recipeResult ''unit_of_measure'') (JStr [])),
            (''inventory_location'', js_or (col recipeResult ''inventory_location'') (JStr [])),
            (''parts'', js_or (JArr (select_children part_cols rid (recipe_parts db))) (JArr [])),
            (''labor'', js_or (JArr (select_children labor_cols rid (recipe_labor db))) (JArr [])),
            (''created_at'', js_or (col recipeResult ''created_at'') (JStr [])),
            (''updated_at'', js_or (col recipeResult ''updated_at'') (JStr []))])"

text \<open>
  The arguments of a \<^verbatim>\<open>bind\<close>: each column with the property path read for it, as
  \<^verbatim>\<open>recipeData.dimensions.length\<close>. They are evaluated before the statement runs.
\<close>

fun get_path :: "jsval \<Rightarrow> string list \<Rightarrow> error + jsval" where
  "get_path v [] = Inr v"
| "get_path v (k # ks) = bind_err (get_prop v k) (\<lambda>x. get_path x ks)"

fun bind_args :: "jsval \<Rightarrow> (string \<times> string list) list \<Rightarrow> error + row" where
  "bind_args v [] = Inr []"
| "bind_args v ((c, path) # rest) =
     bind_err (get_path v path) (\<lambda>x.
     bind_err (bind_args v rest) (\<lambda>r. Inr ((c, x) # r)))"

definition recipe_args :: "(string \<times> string list) list" where
  "recipe_args =
     [(''name'', [''name'']),
      (''weight'', [''weight'']),
      (''length_unit'', [''dimensions'', ''length'']),
      (''width'', [''dimensions'', ''width'']),
      (''height'', [''dimensions'', ''height'']),
      (''dimension_unit'', [''dimensions'', ''unit'']),
      (''yield_percentage'', [''yield_percentage'']),
      (''waste_factor'', [''waste_factor'']),
      (''unit_of_measure'', [''unit_of_measure'']),
      (''inventory_location'', [''inventory_location''])]"

definition part_args :: "(string \<times> string list) list" where
  "part_args =
     [(''name'', [''name'']), (''quantity'', [''quantity'']),
      (''cost_per_unit'', [''cost_per_unit''])]"

definition labor_args :: "(string \<times> string list) list" where
  "labor_args =
     [(''type'', [''type'']), (''cost_per_hour'', [''cost_per_hour'']),
      (''hours_needed'', [''hours_needed''])]"

text \<open>
  \<^verbatim>\<open>for (const x of v)\<close> with an \<^verbatim>\<open>INSERT\<close> of a child row in its body: the rows
  inserted before an exception stay. A string iterates over its characters; a value
  that is neither an array nor a string is not iterable.
\<close>

fun iter_values :: "jsval \<Rightarrow> error + jsval list" where
  "iter_values (JArr xs) = Inr xs"
| "iter_values (JStr s) = Inr (map (\<lambda>c. JStr [c]) s)"
| "iter_values v = Inl TypeError"

fun insert_each ::
  "string \<Rightarrow> (string \<times> string list) list \<Rightarrow> jsval list \<Rightarrow> row list \<Rightarrow> error option \<times> row list"
where
  "insert_each rid args [] table = (None, table)"
| "insert_each rid args (x # xs) table =
     (case bind_args x args of
        Inl e \<Rightarrow> (Some e, table)
      | Inr r \<Rightarrow> insert_each rid args xs (table @ [(''recipe_id'', JStr rid) # r]))"

definition insert_children ::
  "string \<Rightarrow> (string \<times> string list) list \<Rightarrow> error + jsval \<Rightarrow> row list \<Rightarrow> error option \<times> row list"
where
  "insert_children rid args children table =
     (case bind_err children iter_values of
        Inl e \<Rightarrow> (Some e, table)
      | Inr xs \<Rightarrow> insert_each rid args xs table)"

text \<open>
  \<open>createRecipe\<close> (lines 247-287). The identifier \<^verbatim>\<open>generateUUID()\<close> draws and the
  time are parameters. The result is the exception or the recipe read back, with the
  store as the statements run so far have left it.
\<close>

definition createRecipe :: "jsval \<Rightarrow> string \<Rightarrow> string \<Rightarrow> DB \<Rightarrow> (error + jsval) \<times> DB" where
  "createRecipe recipeData rid now db =
     (case bind_args recipeData recipe_args of
        Inl e \<Rightarrow> (Inl e, db)
      | Inr args \<Rightarrow>
          (let db1 = db\<lparr> recipes := recipes db @
                 [(''id'', JStr rid) # args @
                  [(''created_at'', JStr now), (''updated_at'', JStr now)]] \<rparr>
           in case insert_children rid part_args (get_prop recipeData ''parts'') (recipe_parts db1) of
                (Some e, ps) \<Rightarrow> (Inl e, db1\<lparr> recipe_parts := ps \<rparr>)
              | (None, ps) \<Rightarrow>
                  (let db2 = db1\<lparr> recipe_parts := ps \<rparr>
                   in case insert_children rid labor_args (get_prop recipeData ''labor'')
                             (recipe_labor db2) of
                        (Some e, ls) \<Rightarrow> (Inl e, db2\<lparr> recipe_labor := ls \<rparr>)
                      | (None, ls) \<Rightarrow>
                          (let db3 = db2\<lparr> recipe_labor := ls \<rparr>
                           in (Inr (getRecipeById rid db3), db3)))))"

text \<open>
  \<^verbatim>\<open>{...v}\<close>: the own enumerable properties of \<open>v\<close>. Spreading an array or a string
  adds properties named by indices only, which \<open>updateRecipe\<close> never reads: they are
  left out. Spreading any other value adds nothing.
\<close>

fun spread_props :: "jsval \<Rightarrow> (string \<times> jsval) list" where
  "spread_props (JObj kvs) = kvs"
| "spread_props v = []"

text \<open>\<^verbatim>\<open>UPDATE recipes SET ... WHERE id = ?\<close>: the columns set replace the row's.\<close>

definition update_row :: "row \<Rightarrow> row \<Rightarrow> row" where
  "update_row new r =
     map (\<lambda>(c, v). (c, case map_of new c of None \<Rightarrow> v | Some v' \<Rightarrow> v')) r"

text \<open>
  \<open>updateRecipe\<close> (lines 289-339). In the merged object a later property overrides
  an earlier one of the same name, so the later ones come first in the list.
\<close>

definition updateRecipe :: "string \<Rightarrow> jsval \<Rightarrow> string \<Rightarrow> DB \<Rightarrow> (error + jsval) \<times> DB" where
  "updateRecipe rid updateData now db =
     (let existingRecipe = getRecipeById rid db in
      if \<not> truthy existingRecipe then (Inr JNull, db)
      else
       (let updatedRecipe =
              JObj ([(''updated_at'', JStr now), (''id'', JStr rid)]
                    @ spread_props updateData @ spread_props existingRecipe)
        in case bind_args updatedRecipe recipe_args of
             Inl e \<Rightarrow> (Inl e, db)
           | Inr args \<Rightarrow>
               (let db1 = db\<lparr> recipes :=
                      map (\<lambda>r. if col_is ''id'' rid r
                                then update_row (args @ [(''updated_at'', JStr now)]) r else r)
                        (recipes db) \<rparr>
                in case get_prop updateData ''parts'' of
                     Inl e \<Rightarrow> (Inl e, db1)
                   | Inr new_parts \<Rightarrow>
                       (case (if new_parts \<noteq> JUndefined
                              then insert_children rid part_args (get_prop updatedRecipe ''parts'')
                                     (filter (\<lambda>r. \<not> col_is ''recipe_id'' rid r) (recipe_parts db1))
                              else (None, recipe_parts db1)) of
                          (Some e, ps) \<Rightarrow> (Inl e, db1\<lparr> recipe_parts := ps \<rparr>)
                        | (None, ps) \<Rightarrow>
                            (let db2 = db1\<lparr> recipe_parts := ps \<rparr>
                             in case get_prop updateData ''labor'' of
                                  Inl e \<Rightarrow> (Inl e, db2)
                                | Inr new_labor \<Rightarrow>
                                    (case (if new_labor \<noteq> JUndefined
                                           then insert_children rid labor_args
                                                  (get_prop updatedRecipe ''labor'')
                                                  (filter (\<lambda>r. \<not> col_is ''recipe_id'' rid r)
                                                     (recipe_labor db2))
                                           else (None, recipe_labor db2)) of
                                       (Some e, ls) \<Rightarrow> (Inl e, db2\<lparr> recipe_labor := ls \<rparr>)
                                     | (None, ls) \<Rightarrow>
                                         (let db3 = db2\<lparr> recipe_labor := ls \<rparr>
                                          in (Inr (getRecipeById rid db3), db3))))))))"



section \<open>The routes\<close>

record SummaryItem =
  item_recipe_id :: string
  item_recipe_name :: string
  total_cost :: jsnum
  parts_cost :: jsnum
  labor_cost :: jsnum
  item_unit_of_measure :: string

record Totals =
  total_parts_cost :: jsnum
  total_labor_cost :: jsnum
  grand_total :: jsnum
  average_cost_per_recipe :: jsnum
  total_recipes :: nat
  totals_currency :: string

record FleetSummary =
  summary_recipes :: "SummaryItem list"
  totals :: Totals

text \<open>\<^verbatim>\<open>xs.map(f)\<close>, in order; an exception of \<open>f\<close> ends it.\<close>

fun map_js :: "('a \<Rightarrow> error + 'b) \<Rightarrow> 'a list \<Rightarrow> error + 'b list" where
  "map_js f [] = Inr []"
| "map_js f (x # xs) = bind_err (f x) (\<lambda>y. bind_err (map_js f xs) (\<lambda>ys. Inr (y # ys)))"

text \<open>
  \<^verbatim>\<open>GET /api/recipes/cost/summary\<close> (lines 401-428), from the recipes that
  \<^verbatim>\<open>getAllRecipes\<close> returned: the function given to \<^verbatim>\<open>map\<close>, then the totals.
\<close>

definition summary_item :: "Recipe \<Rightarrow> error + SummaryItem" where
  "summary_item recipe =
     bind_err (calculateRecipeCost (Some recipe)) (\<lambda>cost.
       Inr \<lparr> item_recipe_id = rec_id recipe,
             item_recipe_name = rec_name recipe,
             total_cost = total (cost_summary cost),
             parts_cost =
               foldl (\<lambda>sum part. js_add sum (js_mul (Fin (quantity part)) (Fin (cost_per_unit part))))
                 (Fin 0) (parts recipe),
             labor_cost =
               foldl (\<lambda>sum job. js_add sum (js_mul (Fin (hours_needed job)) (Fin (cost_per_hour job))))
                 (Fin 0) (labor recipe),
             item_unit_of_measure = cs_unit_of_measure (cost_summary cost) \<rparr>)"

definition cost_summary_route :: "Recipe list \<Rightarrow> error + FleetSummary" where
  "cost_summary_route rs =
     bind_err (map_js summary_item rs) (\<lambda>summary.
       (let grandTotal = foldl (\<lambda>total item. js_add total (total_cost item)) (Fin 0) summary
        in Inr \<lparr> summary_recipes = summary,
                 totals =
                   \<lparr> total_parts_cost =
                       foldl (\<lambda>sum item. js_add sum (parts_cost item)) (Fin 0) summary,
                     total_labor_cost =
                       foldl (\<lambda>sum item. js_add sum (labor_cost item)) (Fin 0) summary,
                     grand_total = grandTotal,
                     average_cost_per_recipe =
                       (if length summary > 0
                        then js_div grandTotal (Fin (real (length summary)))
                        else Fin 0),
                     total_recipes = length summary,
                     totals_currency = ''USD'' \<rparr> \<rparr>))"

record Response =
  status :: nat
  body :: jsval

definition sendJSON :: "jsval \<Rightarrow> nat \<Rightarrow> Response" where
  "sendJSON data st = \<lparr> status = st, body = data \<rparr>"

definition error_body :: "string option \<Rightarrow> jsval" where
  "error_body msg = JObj [(''error'', case msg of None \<Rightarrow> JUndefined | Some m \<Rightarrow> JStr m)]"

text \<open>The \<^verbatim>\<open>catch\<close> of the handler (lines 508-511).\<close>

definition went_wrong :: Response where
  "went_wrong = sendJSON (error_body (Some ''Something went wrong!'')) 500"

text \<open>\<^verbatim>\<open>POST /api/recipes\<close> (lines 462-471), on the parsed body.\<close>

definition post_recipe :: "jsval \<Rightarrow> string \<Rightarrow> string \<Rightarrow> DB \<Rightarrow> Response \<times> DB" where
  "post_recipe payload rid now db =
     (case validateRecipe payload of
        Inl e \<Rightarrow> (went_wrong, db)
      | Inr validation \<Rightarrow>
          if \<not> valid validation then (sendJSON (error_body (message validation)) 400, db)
          else (case createRecipe payload rid now db of
                  (Inl e, db') \<Rightarrow> (went_wrong, db')
                | (Inr newRecipe, db') \<Rightarrow> (sendJSON newRecipe 201, db')))"

text \<open>\<^verbatim>\<open>PUT /api/recipes/:id\<close> (lines 473-490), on the parsed body.\<close>

definition put_recipe :: "string \<Rightarrow> jsval \<Rightarrow> string \<Rightarrow> DB \<Rightarrow> Response \<times> DB" where
  "put_recipe rid payload now db =
     (case validatePartialRecipe payload of
        Inl e \<Rightarrow> (went_wrong, db)
      | Inr validation \<Rightarrow>
          if \<not> valid validation then (sendJSON (error_body (message validation)) 400, db)
          else (case updateRecipe rid payload now db of
                  (Inl e, db') \<Rightarrow> (went_wrong, db')
                | (Inr updatedRecipe, db') \<Rightarrow>
                    if \<not> truthy updatedRecipe
                    then (sendJSON (error_body (Some ''Recipe not found'')) 404, db')
                    else (sendJSON updatedRecipe 200, db')))"


section \<open>The specification's words\<close>

text \<open>The cost formulas of the specification, with \<open>\<Sigma>\<close> as \<open>js_sum\<close>.\<close>

definition spec_parts_cost :: "Recipe \<Rightarrow> jsnum" where
  "spec_parts_cost recipe =
     js_sum (map (\<lambda>part. js_mul (Fin (quantity part)) (Fin (cost_per_unit part))) (parts recipe))"

definition spec_labor_cost :: "Recipe \<Rightarrow> jsnum" where
  "spec_labor_cost recipe =
     js_sum (map (\<lambda>job. js_mul (Fin (hours_needed job)) (Fin (cost_per_hour job))) (labor recipe))"

definition spec_subtotal :: "Recipe \<Rightarrow> jsnum" where
  "spec_subtotal recipe = js_add (spec_parts_cost recipe) (spec_labor_cost recipe)"

text \<open>The waste factor, 0 when falsy or unset.\<close>

definition spec_waste_factor :: "Recipe \<Rightarrow> real" where
  "spec_waste_factor recipe = (case waste_factor recipe of Value x \<Rightarrow> x | _ \<Rightarrow> 0)"

definition spec_total :: "Recipe \<Rightarrow> jsnum" where
  "spec_total recipe =
     js_div (spec_subtotal recipe) (js_sub (Fin 1) (Fin (spec_waste_factor recipe)))"

definition falsy_string :: "string nullable \<Rightarrow> bool" where
  "falsy_string s = (s = Undefined \<or> s = Null \<or> s = Value [])"

definition spec_unit_of_measure :: "Recipe \<Rightarrow> string" where
  "spec_unit_of_measure recipe =
     (if falsy_string (unit_of_measure recipe) then ''piece''
      else (case unit_of_measure recipe of Value s \<Rightarrow> s | _ \<Rightarrow> []))"

text \<open>
  The shape rules of the specification on the properties of an object: truthy
  \<^verbatim>\<open>length\<close>, \<^verbatim>\<open>width\<close>, \<^verbatim>\<open>height\<close> and \<^verbatim>\<open>unit\<close>; a truthy name and two fields that
  are not \<^verbatim>\<open>undefined\<close>.
\<close>

fun spec_dims_ok :: "jsval \<Rightarrow> bool" where
  "spec_dims_ok (JObj d) =
     (truthy (col d ''length'') \<and> truthy (col d ''width'') \<and>
      truthy (col d ''height'') \<and> truthy (col d ''unit''))"
| "spec_dims_ok v = False"

fun spec_part_ok :: "jsval \<Rightarrow> bool" where
  "spec_part_ok (JObj p) =
     (truthy (col p ''name'') \<and> col p ''quantity'' \<noteq> JUndefined \<and>
      col p ''cost_per_unit'' \<noteq> JUndefined)"
| "spec_part_ok v = False"

fun spec_labor_ok :: "jsval \<Rightarrow> bool" where
  "spec_labor_ok (JObj l) =
     (truthy (col l ''type'') \<and> col l ''cost_per_hour'' \<noteq> JUndefined \<and>
      col l ''hours_needed'' \<noteq> JUndefined)"
| "spec_labor_ok v = False"

fun spec_all :: "(jsval \<Rightarrow> bool) \<Rightarrow> jsval \<Rightarrow> bool" where
  "spec_all ok (JArr xs) = list_all ok xs"
| "spec_all ok v = False"

definition spec_full_ok :: "row \<Rightarrow> bool" where
  "spec_full_ok kvs =
     (list_all (\<lambda>field. map_of kvs field \<noteq> None) requiredFields \<and>
      spec_dims_ok (col kvs ''dimensions'') \<and>
      spec_all spec_part_ok (col kvs ''parts'') \<and>
      spec_all spec_labor_ok (col kvs ''labor''))"

text \<open>A number in a range.\<close>

fun number_in :: "(real \<Rightarrow> bool) \<Rightarrow> jsval \<Rightarrow> bool" where
  "number_in in_range (JNum x) = in_range x"
| "number_in in_range v = False"

text \<open>
  What partial validation accepts of an object: a rule holds of a field that is present.
  The rule on dimensions carries the guard of the code (line 83), so a falsy value
  passes it.
\<close>

definition absent_or :: "(jsval \<Rightarrow> bool) \<Rightarrow> jsval \<Rightarrow> bool" where
  "absent_or rule v = (v = JUndefined \<or> rule v)"

definition partial_accepts :: "row \<Rightarrow> bool" where
  "partial_accepts kvs =
     (absent_or (\<lambda>d. if truthy d then spec_dims_ok d else True) (col kvs ''dimensions'') \<and>
      absent_or (spec_all spec_part_ok) (col kvs ''parts'') \<and>
      absent_or (spec_all spec_labor_ok) (col kvs ''labor'') \<and>
      absent_or (number_in (\<lambda>x. 0 \<le> x)) (col kvs ''weight'') \<and>
      absent_or (number_in (\<lambda>x. 0 \<le> x \<and> x \<le> 100)) (col kvs ''yield_percentage'') \<and>
      absent_or (number_in (\<lambda>x. 0 \<le> x \<and> x < 1)) (col kvs ''waste_factor''))"

text \<open>
  What a loop stores for one element: \<^verbatim>\<open>x.c\<close> for each column \<open>c\<close>, under the
  recipe's identifier. \<open>prop_of\<close> is \<^verbatim>\<open>x.c\<close> where reading it does not raise.
\<close>

definition prop_of :: "jsval \<Rightarrow> string \<Rightarrow> jsval" where
  "prop_of v k = (case get_prop v k of Inl e \<Rightarrow> JUndefined | Inr x \<Rightarrow> x)"

definition child_row :: "string \<Rightarrow> string list \<Rightarrow> jsval \<Rightarrow> row" where
  "child_row rid cols x = (''recipe_id'', JStr rid) # map (\<lambda>c. (c, prop_of x c)) cols"

text \<open>The rows of a child table that belong to other recipes.\<close>

definition without_recipe :: "string \<Rightarrow> row list \<Rightarrow> row list" where
  "without_recipe rid table = filter (\<lambda>r. \<not> col_is ''recipe_id'' rid r) table"

text \<open>Kinds of payload: objects (arrays among them), and the two values without properties.\<close>

fun is_object :: "jsval \<Rightarrow> bool" where
  "is_object (JObj kvs) = True"
| "is_object (JArr xs) = True"
| "is_object v = False"

fun nullish :: "jsval \<Rightarrow> bool" where
  "nullish JNull = True"
| "nullish JUndefined = True"
| "nullish v = False"

fun no_nullish_elems :: "jsval \<Rightarrow> bool" where
  "no_nullish_elems (JArr xs) = list_all (\<lambda>x. \<not> nullish x) xs"
| "no_nullish_elems v = True"

text \<open>An evaluation that raises nothing but a TypeError.\<close>

fun type_error_only :: "error + 'a \<Rightarrow> bool" where
  "type_error_only (Inl e) = (e = TypeError)"
| "type_error_only (Inr x) = True"

section \<open>Examples\<close>

text \<open>
  The example of the specification: parts cost 10, labor cost 60, a waste factor of 0.2.
\<close>

definition example_recipe :: Recipe where
  "example_recipe =
     \<lparr> rec_id = ''r1'', rec_name = ''bread'', weight = 1,
       dimensions = \<lparr> dim_length = 10, width = 5, height = 3, dim_unit = ''cm'' \<rparr>,
       yield_percentage = 90, waste_factor = Value (1 / 5), unit_of_measure = Value ''loaf'',
       inventory_location = ''A1'',
       parts = [\<lparr> part_name = ''flour'', quantity = 2, cost_per_unit = 5 \<rparr>],
       labor = [\<lparr> labor_type = ''baking'', cost_per_hour = 20, hours_needed = 3 \<rparr>],
       created_at = ''t0'', updated_at = ''t0'' \<rparr>"

text \<open>
  The example with one part of quantity \<^verbatim>\<open>1e308\<close> at a cost of 10, and a waste
  factor of 0.
\<close>

definition big_recipe :: Recipe where
  "big_recipe =
     example_recipe
       \<lparr> waste_factor := Value 0,
         parts := [\<lparr> part_name = ''flour'', quantity = 10 ^ 308, cost_per_unit = 10 \<rparr>] \<rparr>"

definition example_dims :: jsval where
  "example_dims =
     JObj [(''length'', JNum 10), (''width'', JNum 5), (''height'', JNum 3),
           (''unit'', JStr ''cm'')]"

definition example_part :: "jsval \<Rightarrow> jsval \<Rightarrow> jsval" where
  "example_part q c = JObj [(''name'', JStr ''flour''), (''quantity'', q), (''cost_per_unit'', c)]"

definition example_job :: jsval where
  "example_job =
     JObj [(''type'', JStr ''baking''), (''cost_per_hour'', JNum 20), (''hours_needed'', JNum 3)]"

text \<open>A complete payload, with the dimensions, the parts and the waste factor to choose.\<close>

definition example_payload :: "jsval \<Rightarrow> jsval \<Rightarrow> jsval \<Rightarrow> jsval" where
  "example_payload dims ps waste =
     JObj [(''name'', JStr ''bread''), (''weight'', JNum 1), (''dimensions'', dims),
           (''yield_percentage'', JNum 90), (''waste_factor'', waste),
           (''unit_of_measure'', JStr ''loaf''), (''inventory_location'', JStr ''A1''),
           (''parts'', ps), (''labor'', JArr [example_job])]"

definition bad_payload :: jsval where
  "bad_payload =
     example_payload example_dims (JArr [example_part (JNum 2) (JNum 5)]) (JNum (3 / 2))"

definition empty_db :: DB where
  "empty_db = \<lparr> recipes = [], recipe_parts = [], recipe_labor = [] \<rparr>"

text \<open>A store with the recipe \<open>r1\<close>, its two parts and its labor row, and a part of \<open>r2\<close>.\<close>

definition example_db :: DB where
  "example_db =
     \<lparr> recipes =
         [[(''id'', JStr ''r1''), (''name'', JStr ''bread''), (''weight'', JNum 1),
           (''length_unit'', JNum 10), (''width'', JNum 5), (''height'', JNum 3),
           (''dimension_unit'', JStr ''cm''), (''yield_percentage'', JNum 90),
           (''waste_factor'', JNum (1 / 5)), (''unit_of_measure'', JStr ''loaf''),
           (''inventory_location'', JStr ''A1''), (''created_at'', JStr ''t0''),
           (''updated_at'', JStr ''t0'')]],
       recipe_parts =
         [[(''recipe_id'', JStr ''r1''), (''name'', JStr ''flour''), (''quantity'', JNum 2),
           (''cost_per_unit'', JNum 5)],
          [(''recipe_id'', JStr ''r2''), (''name'', JStr ''salt''), (''quantity'', JNum 1),
           (''cost_per_unit'', JNum 1)],
          [(''recipe_id'', JStr ''r1''), (''name'', JStr ''yeast''), (''quantity'', JNum 1),
           (''cost_per_unit'', JNum 2)]],
       recipe_labor =
         [[(''recipe_id'', JStr ''r1''), (''type'', JStr ''baking''),
           (''cost_per_hour'', JNum 20), (''hours_needed'', JNum 3)]] \<rparr>"

section \<open>Properties of the cost engine\<close>

subsection \<open>Overflow\<close>

lemma overflow_bound_large: "10 ^ 300 < overflow_bound"
  by (simp add: overflow_bound_def)

lemma to_double_small: "\<bar>x\<bar> \<le> 1000000 \<Longrightarrow> to_double x = Fin x"
proof -
  assume "\<bar>x\<bar> \<le> 1000000"
  moreover have "(1000000::real) < 10 ^ 300"
    by simp
  ultimately have "- overflow_bound < x \<and> x < overflow_bound"
    using overflow_bound_large by linarith
  then show ?thesis
    by (simp add: to_double_def)
qed

lemma to_double_Fin: "to_double x = Fin y \<Longrightarrow> to_double y = Fin y"
  by (simp add: to_double_def split: if_splits)

lemma js_add_Fin: "js_add a b = Fin x \<Longrightarrow> to_double x = Fin x"
  by (cases a; cases b) (simp_all add: to_double_Fin)

lemma js_div_one: "to_double x = Fin x \<Longrightarrow> js_div (Fin x) (Fin 1) = Fin x"
  by simp

lemma js_div_one_inf: "js_div PInf (Fin 1) = PInf" "js_div NInf (Fin 1) = NInf"
  by (simp_all add: signed_inf_def)

lemma js_div_one_add: "js_div (js_add a b) (Fin 1) = js_add a b"
proof (cases "js_add a b")
  case (Fin x)
  then show ?thesis by (simp add: js_div_one js_add_Fin)
qed (simp_all add: signed_inf_def)

lemma one_minus_zero: "js_sub (Fin 1) (Fin 0) = Fin 1"
  by (simp add: js_sub_def to_double_small)

lemma js_sub_self: "js_sub (Fin x) (Fin x) = Fin 0"
  by (simp add: js_sub_def to_double_small)

lemma js_sub_inf: "js_sub PInf PInf = NaN" "js_sub NInf NInf = NaN"
  by (simp_all add: js_sub_def)

subsection \<open>A left fold of additions is the sum\<close>

lemma foldl_sum_from: "foldl (\<lambda>t x. js_add t (f x)) a xs = sum_from a (map f xs)"
  by (induction xs arbitrary: a) simp_all

lemma reduce_js_sum: "foldl (\<lambda>t x. js_add t (f x)) (Fin 0) xs = js_sum (map f xs)"
  by (simp add: foldl_sum_from js_sum_def)

subsection \<open>The code against the formulas\<close>

lemma partsCost_spec: "partsCost recipe = spec_parts_cost recipe"
  by (simp add: partsCost_def spec_parts_cost_def reduce_js_sum)

lemma laborCost_spec: "laborCost recipe = spec_labor_cost recipe"
  by (simp add: laborCost_def spec_labor_cost_def reduce_js_sum)

lemma num_or_spec: "num_or (waste_factor recipe) 0 = spec_waste_factor recipe"
  by (cases "waste_factor recipe") (simp_all add: spec_waste_factor_def)

lemma str_or_spec: "str_or (unit_of_measure recipe) ''piece'' = spec_unit_of_measure recipe"
  by (cases "unit_of_measure recipe") (simp_all add: spec_unit_of_measure_def falsy_string_def)

lemma calculateRecipeCost_Some:
  "calculateRecipeCost (Some recipe) =
     Inr \<lparr> recipe_id = rec_id recipe,
           recipe_name = rec_name recipe,
           cost_summary =
             \<lparr> subtotal = spec_subtotal recipe,
               cs_waste_factor = waste_factor recipe,
               waste_amount = js_sub (spec_total recipe) (spec_subtotal recipe),
               total = spec_total recipe,
               currency = ''USD'',
               cs_unit_of_measure = spec_unit_of_measure recipe \<rparr> \<rparr>"
  by (simp add: calculateRecipeCost_def Let_def partsCost_spec laborCost_spec num_or_spec
      str_or_spec spec_subtotal_def spec_total_def)

lemma spec_total_no_waste:
  "spec_waste_factor recipe = 0 \<Longrightarrow> spec_total recipe = spec_subtotal recipe"
  by (simp add: spec_total_def spec_subtotal_def one_minus_zero js_div_one_add)

lemma example_recipe_costs:
  "spec_parts_cost example_recipe = Fin 10" "spec_labor_cost example_recipe = Fin 60"
  "spec_subtotal example_recipe = Fin 70" "spec_total example_recipe = Fin (175 / 2)"
  by (simp_all add: spec_total_def spec_subtotal_def spec_parts_cost_def spec_labor_cost_def
      spec_waste_factor_def example_recipe_def js_sub_def js_sum_def to_double_small)

lemma big_recipe_costs:
  "spec_parts_cost big_recipe = PInf" "spec_subtotal big_recipe = PInf"
  "spec_total big_recipe = PInf"
proof -
  have "overflow_bound \<le> 10 ^ 308 * 10"
    by (simp add: overflow_bound_def)
  then have product: "js_mul (Fin (10 ^ 308)) (Fin 10) = PInf"
    by (simp add: to_double_def)
  then show parts: "spec_parts_cost big_recipe = PInf"
    by (simp add: spec_parts_cost_def big_recipe_def js_sum_def)
  have "spec_labor_cost big_recipe = Fin 60"
    by (simp add: spec_labor_cost_def big_recipe_def example_recipe_def js_sum_def
        to_double_small)
  with parts show subtotal: "spec_subtotal big_recipe = PInf"
    by (simp add: spec_subtotal_def)
  have "spec_waste_factor big_recipe = 0"
    by (simp add: spec_waste_factor_def big_recipe_def)
  with subtotal show "spec_total big_recipe = PInf"
    by (simp add: spec_total_no_waste)
qed

text \<open>
  Claim C1. For every recipe, \<open>calculateRecipeCost\<close> returns a breakdown whose subtotal
  is the parts cost \<open>\<Sigma> quantity \<times> cost_per_unit\<close> plus the labor cost
  \<open>\<Sigma> hours_needed \<times> cost_per_hour\<close> (\<open>spec_subtotal\<close>), whose total is
  \<open>subtotal / (1 - waste_factor)\<close> with the waste factor taken as 0 when it is falsy or
  unset (\<open>spec_total\<close>), whose waste amount is \<open>total - subtotal\<close>, and which carries the
  recipe's id and name, the currency USD, and the recipe's unit of measure, or
  \<open>piece\<close> when that is falsy.
\<close>

theorem calculateRecipeCost_breakdown:
  "calculateRecipeCost (Some recipe) =
     Inr \<lparr> recipe_id = rec_id recipe,
           recipe_name = rec_name recipe,
           cost_summary =
             \<lparr> subtotal = spec_subtotal recipe,
               cs_waste_factor = waste_factor recipe,
               waste_amount = js_sub (spec_total recipe) (spec_subtotal recipe),
               total = spec_total recipe,
               currency = ''USD'',
               cs_unit_of_measure = spec_unit_of_measure recipe \<rparr> \<rparr>"
  by (rule calculateRecipeCost_Some)

text \<open>On the example: a subtotal of 70, a total of 87.5 and a waste amount of 17.5.\<close>

theorem calculateRecipeCost_breakdown_example:
  "calculateRecipeCost (Some example_recipe) =
     Inr \<lparr> recipe_id = ''r1'',
           recipe_name = ''bread'',
           cost_summary =
             \<lparr> subtotal = Fin 70,
               cs_waste_factor = Value (1 / 5),
               waste_amount = Fin (35 / 2),
               total = Fin (175 / 2),
               currency = ''USD'',
               cs_unit_of_measure = ''loaf'' \<rparr> \<rparr>"
proof -
  have "spec_unit_of_measure example_recipe = ''loaf''"
    by (simp add: spec_unit_of_measure_def falsy_string_def example_recipe_def)
  moreover have "rec_id example_recipe = ''r1''" "rec_name example_recipe = ''bread''"
    "waste_factor example_recipe = Value (1 / 5)"
    by (simp_all add: example_recipe_def)
  ultimately show ?thesis
    using calculateRecipeCost_breakdown [of example_recipe]
    by (simp add: example_recipe_costs js_sub_def to_double_small)
qed

subsection \<open>The summary over all recipes\<close>

lemma summary_item_eq:
  "summary_item recipe =
     Inr \<lparr> item_recipe_id = rec_id recipe,
           item_recipe_name = rec_name recipe,
           total_cost = spec_total recipe,
           parts_cost = spec_parts_cost recipe,
           labor_cost = spec_labor_cost recipe,
           item_unit_of_measure = spec_unit_of_measure recipe \<rparr>"
  by (simp add: summary_item_def calculateRecipeCost_Some bind_err_def reduce_js_sum
      spec_parts_cost_def spec_labor_cost_def)

lemma map_js_summary_item:
  "\<exists>items. map_js summary_item rs = Inr items \<and>
     map total_cost items = map spec_total rs \<and>
     map parts_cost items = map spec_parts_cost rs \<and>
     map labor_cost items = map spec_labor_cost rs"
  by (induction rs) (auto simp: summary_item_eq bind_err_def)

text \<open>
  Claim C2. The summary over a list of recipes is computed without an error; its
  \<open>grand_total\<close> is the sum of the totals of the recipes, \<open>total_parts_cost\<close> and
  \<open>total_labor_cost\<close> are the sums of their parts and labor costs, \<open>total_recipes\<close> is
  their number, the currency is USD, and \<open>average_cost_per_recipe\<close> is the grand total
  divided by that number, or 0 when there is no recipe.
\<close>

theorem cost_summary_route_totals:
  "\<exists>s. cost_summary_route rs = Inr s \<and>
       grand_total (totals s) = js_sum (map spec_total rs) \<and>
       total_parts_cost (totals s) = js_sum (map spec_parts_cost rs) \<and>
       total_labor_cost (totals s) = js_sum (map spec_labor_cost rs) \<and>
       total_recipes (totals s) = length rs \<and>
       totals_currency (totals s) = ''USD'' \<and>
       average_cost_per_recipe (totals s) =
         (if rs = [] then Fin 0 else js_div (grand_total (totals s)) (Fin (real (length rs))))"
proof -
  obtain items where items: "map_js summary_item rs = Inr items"
    and t: "map total_cost items = map spec_total rs"
    and p: "map parts_cost items = map spec_parts_cost rs"
    and l: "map labor_cost items = map spec_labor_cost rs"
    using map_js_summary_item by blast
  from t have len: "length items = length rs"
    by (metis length_map)
  then have empty: "(items = []) = (rs = [])"
    by auto
  show ?thesis
    by (simp add: cost_summary_route_def items bind_err_def Let_def reduce_js_sum t p l len empty)
qed

text \<open>With no recipe the average is 0; with the example and a copy, 175 over 2.\<close>

theorem cost_summary_route_totals_example:
  "(\<exists>s. cost_summary_route [] = Inr s \<and> total_recipes (totals s) = 0 \<and>
        grand_total (totals s) = Fin 0 \<and> average_cost_per_recipe (totals s) = Fin 0) \<and>
   (\<exists>s. cost_summary_route [example_recipe, example_recipe] = Inr s \<and>
        total_recipes (totals s) = 2 \<and> grand_total (totals s) = Fin 175 \<and>
        total_parts_cost (totals s) = Fin 20 \<and> total_labor_cost (totals s) = Fin 120 \<and>
        average_cost_per_recipe (totals s) = Fin (175 / 2))"
proof
  show "\<exists>s. cost_summary_route [] = Inr s \<and> total_recipes (totals s) = 0 \<and>
          grand_total (totals s) = Fin 0 \<and> average_cost_per_recipe (totals s) = Fin 0"
    using cost_summary_route_totals [of "[]"] by (auto simp: js_sum_def)
  show "\<exists>s. cost_summary_route [example_recipe, example_recipe] = Inr s \<and>
          total_recipes (totals s) = 2 \<and> grand_total (totals s) = Fin 175 \<and>
          total_parts_cost (totals s) = Fin 20 \<and> total_labor_cost (totals s) = Fin 120 \<and>
          average_cost_per_recipe (totals s) = Fin (175 / 2)"
    using cost_summary_route_totals [of "[example_recipe, example_recipe]"]
    by (auto simp: example_recipe_costs js_sum_def to_double_small)
qed

subsection \<open>The waste factor\<close>

text \<open>
  Claim C3, as the code has it. For every recipe whose waste factor is 0 and whose
  subtotal is finite, \<open>calculateRecipeCost\<close> returns a breakdown whose total equals its
  subtotal and whose waste amount is 0. Where the subtotal has overflowed to an infinity
  the total is that infinity, and the waste amount, their difference, is NaN.
\<close>

theorem zero_waste_factor:
  assumes "waste_factor recipe = Value 0"
  shows "\<exists>b. calculateRecipeCost (Some recipe) = Inr b \<and>
             (\<forall>x. subtotal (cost_summary b) = Fin x \<longrightarrow>
                total (cost_summary b) = Fin x \<and> waste_amount (cost_summary b) = Fin 0) \<and>
             (subtotal (cost_summary b) = PInf \<or> subtotal (cost_summary b) = NInf \<longrightarrow>
                total (cost_summary b) = subtotal (cost_summary b) \<and>
                waste_amount (cost_summary b) = NaN)"
proof -
  from assms have "spec_waste_factor recipe = 0"
    by (simp add: spec_waste_factor_def)
  then have t: "spec_total recipe = spec_subtotal recipe"
    by (rule spec_total_no_waste)
  show ?thesis
    by (auto simp: calculateRecipeCost_Some t js_sub_self js_sub_inf)
qed

text \<open>
  The example with a waste factor of 0 has a subtotal and a total of 70 and a waste
  amount of 0; with the part of quantity \<^verbatim>\<open>1e308\<close> the subtotal and the total are
  infinite and the waste amount is NaN.
\<close>

theorem zero_waste_factor_example:
  "(\<exists>b. calculateRecipeCost (Some (example_recipe\<lparr> waste_factor := Value 0 \<rparr>)) = Inr b \<and>
        subtotal (cost_summary b) = Fin 70 \<and> total (cost_summary b) = Fin 70 \<and>
        waste_amount (cost_summary b) = Fin 0) \<and>
   (\<exists>b. calculateRecipeCost (Some big_recipe) = Inr b \<and>
        subtotal (cost_summary b) = PInf \<and> total (cost_summary b) = PInf \<and>
        waste_amount (cost_summary b) = NaN)"
proof
  let ?r = "example_recipe\<lparr> waste_factor := Value 0 \<rparr>"
  have s: "spec_subtotal ?r = Fin 70"
    by (simp add: spec_subtotal_def spec_parts_cost_def spec_labor_cost_def example_recipe_def
        js_sum_def to_double_small)
  have "waste_factor ?r = Value 0"
    by simp
  from zero_waste_factor [OF this] s
  show "\<exists>b. calculateRecipeCost (Some ?r) = Inr b \<and>
          subtotal (cost_summary b) = Fin 70 \<and> total (cost_summary b) = Fin 70 \<and>
          waste_amount (cost_summary b) = Fin 0"
    by (auto simp: calculateRecipeCost_Some)
  have "waste_factor big_recipe = Value 0"
    by (simp add: big_recipe_def)
  from zero_waste_factor [OF this] big_recipe_costs(2)
  show "\<exists>b. calculateRecipeCost (Some big_recipe) = Inr b \<and>
          subtotal (cost_summary b) = PInf \<and> total (cost_summary b) = PInf \<and>
          waste_amount (cost_summary b) = NaN"
    by (auto simp: calculateRecipeCost_Some)
qed

text \<open>
  The claim as stated, that the waste amount is 0 for every recipe whose waste factor
  is 0, fails on the recipe with one part of quantity \<^verbatim>\<open>1e308\<close> and cost 10: the
  product overflows, the subtotal and the total are infinite, and the waste amount is
  NaN.
\<close>

theorem zero_waste_factor_overflow:
  "waste_factor big_recipe = Value 0 \<and>
   calculateRecipeCost (Some big_recipe) =
     Inr \<lparr> recipe_id = ''r1'',
           recipe_name = ''bread'',
           cost_summary =
             \<lparr> subtotal = PInf,
               cs_waste_factor = Value 0,
               waste_amount = NaN,
               total = PInf,
               currency = ''USD'',
               cs_unit_of_measure = ''loaf'' \<rparr> \<rparr>"
proof -
  have "spec_unit_of_measure big_recipe = ''loaf''"
    by (simp add: spec_unit_of_measure_def falsy_string_def big_recipe_def example_recipe_def)
  moreover have "rec_id big_recipe = ''r1''" "rec_name big_recipe = ''bread''"
    "waste_factor big_recipe = Value 0"
    by (simp_all add: big_recipe_def example_recipe_def)
  ultimately show ?thesis
    by (simp add: calculateRecipeCost_Some big_recipe_costs js_sub_inf)
qed



section \<open>Properties of validation\<close>

subsection \<open>Evaluation with exceptions\<close>

lemma bind_err_Inr [simp]: "bind_err (Inr x) f = f x"
  by (simp add: bind_err_def)

lemma bind_err_Inl [simp]: "bind_err (Inl e) f = Inl e"
  by (simp add: bind_err_def)

lemma js_or_else_Inr: "js_or_else (Inr x) b = (if x then Inr True else b)"
  by (simp add: js_or_else_def)

lemma js_or_else_Inl: "js_or_else (Inl e) b = Inl e"
  by (simp add: js_or_else_def)

lemma get_prop_obj: "get_prop (JObj kvs) k = Inr (col kvs k)"
  by (simp add: col_def)

lemma ok_not_invalid [simp]: "invalid_result m \<noteq> ok_result" "ok_result \<noteq> invalid_result m"
  by (simp_all add: ok_result_def invalid_result_def)

lemma filter_js_total: "filter_js (\<lambda>x. Inr (p x)) xs = Inr (filter p xs)"
  by (induction xs) simp_all

lemma bind_check_ok:
  "(bind_err m (\<lambda>bad. if bad then Inr (invalid_result msg) else k) = Inr ok_result) =
     (m = Inr False \<and> k = Inr ok_result)"
  by (cases m) auto

lemma if_invalid_ok:
  "((if c then Inr (invalid_result msg) else k) = Inr ok_result) = (\<not> c \<and> k = Inr ok_result)"
  by simp

subsection \<open>The tests on dimensions, parts and labor\<close>

lemma dims_full: "js_or_else (Inr (\<not> truthy d)) (dims_malformed d) = Inr (\<not> spec_dims_ok d)"
  by (cases d) (auto simp: dims_malformed_def not_prop_def col_def js_or_else_Inr)

lemma dims_partial:
  "(if d \<noteq> JUndefined \<and> truthy d then dims_malformed d else Inr False) =
     Inr (\<not> absent_or (\<lambda>d. if truthy d then spec_dims_ok d else True) d)"
  by (cases d) (auto simp: dims_malformed_def not_prop_def col_def absent_or_def js_or_else_Inr)

lemma part_invalid_cases:
  "part_invalid p = (if nullish p then Inl TypeError else Inr (\<not> spec_part_ok p))"
  by (cases p)
    (auto simp: part_invalid_def not_prop_def prop_undefined_def col_def js_or_else_Inr
      js_or_else_Inl)

lemma labor_invalid_cases:
  "labor_invalid p = (if nullish p then Inl TypeError else Inr (\<not> spec_labor_ok p))"
  by (cases p)
    (auto simp: labor_invalid_def not_prop_def prop_undefined_def col_def js_or_else_Inr
      js_or_else_Inl)

lemma part_invalid_False: "(part_invalid p = Inr False) = spec_part_ok p"
  by (cases p) (simp_all add: part_invalid_cases)

lemma labor_invalid_False: "(labor_invalid p = Inr False) = spec_labor_ok p"
  by (cases p) (simp_all add: labor_invalid_cases)

lemma some_js_False:
  assumes "\<And>x. (f x = Inr False) = ok x"
  shows "(some_js f xs = Inr False) = list_all ok xs"
proof (induction xs)
  case Nil
  show ?case by simp
next
  case (Cons x xs)
  show ?case
  proof (cases "f x")
    case (Inl e)
    with assms [of x] show ?thesis by (simp add: js_or_else_Inl)
  next
    case (Inr b)
    with assms [of x] Cons show ?thesis by (cases b) (simp_all add: js_or_else_Inr)
  qed
qed

lemma array_invalid_False:
  assumes "\<And>x. (f x = Inr False) = ok x"
  shows "(array_invalid f v = Inr False) = spec_all ok v"
  by (cases v) (simp_all add: some_js_False [of f ok, OF assms])

lemma parts_False: "(array_invalid part_invalid v = Inr False) = spec_all spec_part_ok v"
  by (rule array_invalid_False) (rule part_invalid_False)

lemma labor_False: "(array_invalid labor_invalid v = Inr False) = spec_all spec_labor_ok v"
  by (rule array_invalid_False) (rule labor_invalid_False)

lemma some_js_returns:
  "list_all (\<lambda>x. \<exists>b. f x = Inr b) xs \<Longrightarrow> \<exists>b. some_js f xs = Inr b"
  by (induction xs) (auto simp: js_or_else_Inr)

lemma array_invalid_returns:
  assumes "\<And>x. \<not> nullish x \<Longrightarrow> \<exists>b. f x = Inr b" and "no_nullish_elems v"
  shows "\<exists>b. array_invalid f v = Inr b"
proof (cases v)
  case (JArr xs)
  with assms(2) have "list_all (\<lambda>x. \<exists>b. f x = Inr b) xs"
    using assms(1) by (simp add: list_all_iff)
  with JArr show ?thesis by (simp add: some_js_returns)
qed auto

lemma part_invalid_returns: "\<not> nullish x \<Longrightarrow> \<exists>b. part_invalid x = Inr b"
  by (simp add: part_invalid_cases)

lemma labor_invalid_returns: "\<not> nullish x \<Longrightarrow> \<exists>b. labor_invalid x = Inr b"
  by (simp add: labor_invalid_cases)

subsection \<open>Full validation of an object\<close>

lemma missing_none:
  "(filter (\<lambda>field. map_of kvs field = None) requiredFields = []) =
     list_all (\<lambda>field. map_of kvs field \<noteq> None) requiredFields"
  by (simp add: filter_empty_conv list_all_iff)

lemma validateRecipe_obj:
  "validateRecipe (JObj kvs) =
     (let missingFields = filter (\<lambda>field. map_of kvs field = None) requiredFields in
      if missingFields \<noteq> []
      then Inr (invalid_result (''Missing required fields: '' @ join_js missingFields '', ''))
      else bind_err (Inr (\<not> spec_dims_ok (col kvs ''dimensions''))) (\<lambda>bad_dims.
        if bad_dims then Inr (invalid_result dims_message) else
        bind_err (array_invalid part_invalid (col kvs ''parts'')) (\<lambda>bad_parts.
        if bad_parts then Inr (invalid_result parts_message) else
        bind_err (array_invalid labor_invalid (col kvs ''labor'')) (\<lambda>bad_labor.
        if bad_labor then Inr (invalid_result labor_message) else Inr ok_result))))"
  unfolding validateRecipe_def
  by (simp add: filter_js_total get_prop_obj dims_full Let_def del: get_prop.simps cong: if_cong)

lemma validateRecipe_ok_iff: "(validateRecipe (JObj kvs) = Inr ok_result) = spec_full_ok kvs"
proof -
  have "(validateRecipe (JObj kvs) = Inr ok_result) =
          (filter (\<lambda>field. map_of kvs field = None) requiredFields = [] \<and>
           spec_dims_ok (col kvs ''dimensions'') \<and>
           spec_all spec_part_ok (col kvs ''parts'') \<and>
           spec_all spec_labor_ok (col kvs ''labor''))"
    unfolding validateRecipe_obj Let_def
    by (simp add: bind_check_ok parts_False labor_False del: bind_err_Inr)
  then show ?thesis
    by (simp only: missing_none spec_full_ok_def)
qed

lemma validateRecipe_bad_dims:
  "\<not> spec_dims_ok (col kvs ''dimensions'') \<Longrightarrow>
   \<exists>m. validateRecipe (JObj kvs) = Inr (invalid_result m)"
  unfolding validateRecipe_obj Let_def by auto

lemma validateRecipe_forms:
  "validateRecipe v = Inr r \<Longrightarrow> r = ok_result \<or> (\<exists>m. r = invalid_result m)"
  unfolding validateRecipe_def
  by (auto simp: bind_err_def split: sum.splits if_splits)

lemma validateRecipe_not_object: "\<not> is_object v \<Longrightarrow> validateRecipe v = Inl TypeError"
  by (cases v) (simp_all add: validateRecipe_def requiredFields_def)

lemma validateRecipe_array: "\<exists>m. validateRecipe (JArr xs) = Inr (invalid_result m)"
  by (auto simp: validateRecipe_def requiredFields_def)

lemma validateRecipe_object_returns:
  assumes "no_nullish_elems (col kvs ''parts'')" and "no_nullish_elems (col kvs ''labor'')"
  shows "\<exists>r. validateRecipe (JObj kvs) = Inr r"
proof -
  obtain b1 where b1: "array_invalid part_invalid (col kvs ''parts'') = Inr b1"
    using array_invalid_returns [of part_invalid, OF part_invalid_returns assms(1)] by blast
  obtain b2 where b2: "array_invalid labor_invalid (col kvs ''labor'') = Inr b2"
    using array_invalid_returns [of labor_invalid, OF labor_invalid_returns assms(2)] by blast
  show ?thesis
    unfolding validateRecipe_obj Let_def by (simp add: b1 b2)
qed

subsection \<open>The only exception is a TypeError\<close>

lemma teo_bind:
  "type_error_only m \<Longrightarrow> (\<And>x. type_error_only (f x)) \<Longrightarrow> type_error_only (bind_err m f)"
  by (cases m) simp_all

lemma teo_get_prop: "type_error_only (get_prop v k)"
  by (cases v) simp_all

lemma teo_has_prop: "type_error_only (has_prop k v)"
  by (cases v) simp_all

lemma teo_or_else:
  "type_error_only a \<Longrightarrow> type_error_only b \<Longrightarrow> type_error_only (js_or_else a b)"
  by (cases a) (simp_all add: js_or_else_def)

lemma teo_not_prop: "type_error_only (not_prop v k)"
  by (simp add: not_prop_def teo_bind teo_get_prop)

lemma teo_prop_undefined: "type_error_only (prop_undefined v k)"
  by (simp add: prop_undefined_def teo_bind teo_get_prop)

lemma teo_some: "(\<And>x. type_error_only (f x)) \<Longrightarrow> type_error_only (some_js f xs)"
  by (induction xs) (simp_all add: teo_or_else)

lemma teo_filter: "(\<And>x. type_error_only (f x)) \<Longrightarrow> type_error_only (filter_js f xs)"
  by (induction xs) (simp_all add: teo_bind)

lemma teo_array_invalid:
  "(\<And>x. type_error_only (f x)) \<Longrightarrow> type_error_only (array_invalid f v)"
  by (cases v) (simp_all add: teo_some)

lemma teo_part_invalid: "type_error_only (part_invalid p)"
  by (simp add: part_invalid_def teo_or_else teo_not_prop teo_prop_undefined)

lemma teo_labor_invalid: "type_error_only (labor_invalid p)"
  by (simp add: labor_invalid_def teo_or_else teo_not_prop teo_prop_undefined)

lemma teo_dims_malformed: "type_error_only (dims_malformed d)"
  by (simp add: dims_malformed_def teo_or_else teo_not_prop)

lemma teo_if:
  "type_error_only a \<Longrightarrow> type_error_only b \<Longrightarrow> type_error_only (if c then a else b)"
  by simp

lemma teo_validateRecipe: "type_error_only (validateRecipe v)"
  unfolding validateRecipe_def
  by (intro teo_bind teo_if teo_filter teo_has_prop teo_get_prop teo_or_else teo_dims_malformed
      teo_array_invalid teo_part_invalid teo_labor_invalid) simp_all

lemma validateRecipe_outcomes:
  "validateRecipe v = Inl TypeError \<or> validateRecipe v = Inr ok_result \<or>
   (\<exists>m. validateRecipe v = Inr (invalid_result m))"
proof (cases "validateRecipe v")
  case (Inl e)
  with teo_validateRecipe [of v] show ?thesis by simp
next
  case (Inr r)
  with validateRecipe_forms [of v r] show ?thesis by auto
qed

subsection \<open>Partial validation of an object\<close>

lemma partial_array:
  assumes "\<And>x. (f x = Inr False) = ok x"
  shows "((if v \<noteq> JUndefined then array_invalid f v else Inr False) = Inr False) =
           absent_or (spec_all ok) v"
  by (simp add: absent_or_def array_invalid_False [of f ok, OF assms])

lemma range_check:
  "(w \<noteq> JUndefined \<and> not_number_or out w) = (\<not> absent_or (number_in (\<lambda>x. \<not> out x)) w)"
  by (cases w) (simp_all add: absent_or_def)

lemma validatePartialRecipe_obj:
  "validatePartialRecipe (JObj kvs) =
     bind_err
       (Inr (\<not> absent_or (\<lambda>d. if truthy d then spec_dims_ok d else True)
                  (col kvs ''dimensions'')))
       (\<lambda>bad_dims.
     if bad_dims then Inr (invalid_result dims_message)
     else
     bind_err
       (if col kvs ''parts'' \<noteq> JUndefined then array_invalid part_invalid (col kvs ''parts'')
        else Inr False)
       (\<lambda>bad_parts.
     if bad_parts then Inr (invalid_result parts_message)
     else
     bind_err
       (if col kvs ''labor'' \<noteq> JUndefined then array_invalid labor_invalid (col kvs ''labor'')
        else Inr False)
       (\<lambda>bad_labor.
     if bad_labor then Inr (invalid_result labor_message)
     else
     if \<not> absent_or (number_in (\<lambda>x. \<not> x < 0)) (col kvs ''weight'')
     then Inr (invalid_result ''Weight must be a positive number'')
     else
     if \<not> absent_or (number_in (\<lambda>x. \<not> (x < 0 \<or> x > 100))) (col kvs ''yield_percentage'')
     then Inr (invalid_result ''Yield percentage must be a number between 0 and 100'')
     else
     if \<not> absent_or (number_in (\<lambda>x. \<not> (x < 0 \<or> x \<ge> 1))) (col kvs ''waste_factor'')
     then Inr (invalid_result ''Waste factor must be a number between 0 and 1'')
     else Inr ok_result)))"
  unfolding validatePartialRecipe_def get_prop_obj bind_err_Inr dims_partial range_check ..

lemma validatePartialRecipe_ok_iff:
  "(validatePartialRecipe (JObj kvs) = Inr ok_result) = partial_accepts kvs"
  unfolding validatePartialRecipe_obj partial_accepts_def
  by (simp add: bind_check_ok if_invalid_ok
      partial_array [of part_invalid spec_part_ok, OF part_invalid_False]
      partial_array [of labor_invalid spec_labor_ok, OF labor_invalid_False]
      not_less not_le del: bind_err_Inr)

lemma validatePartialRecipe_forms:
  "validatePartialRecipe v = Inr r \<Longrightarrow> r = ok_result \<or> (\<exists>m. r = invalid_result m)"
  unfolding validatePartialRecipe_def
  by (auto simp: bind_err_def split: sum.splits if_splits)

subsection \<open>The validators on the examples\<close>

lemmas example_payload_defs =
  example_payload_def example_dims_def example_part_def example_job_def bad_payload_def

lemma example_payload_ok:
  "spec_dims_ok dims \<Longrightarrow> spec_all spec_part_ok ps \<Longrightarrow>
   validateRecipe (example_payload dims ps waste) = Inr ok_result"
  by (simp add: example_payload_def validateRecipe_ok_iff spec_full_ok_def requiredFields_def
      col_def example_job_def)

lemma example_dims_ok: "spec_dims_ok example_dims"
  by (simp add: example_dims_def col_def)

lemma example_part_ok: "q \<noteq> JUndefined \<Longrightarrow> c \<noteq> JUndefined \<Longrightarrow> spec_part_ok (example_part q c)"
  by (simp add: example_part_def col_def)

subsection \<open>Full validation: what it returns and when it raises\<close>

text \<open>
  Claim C4, as the code has it. \<open>validateRecipe\<close> ends on every input, and a TypeError
  is the only exception it raises. It raises one on every payload that is not an
  object: \<^verbatim>\<open>null\<close>, \<^verbatim>\<open>undefined\<close>, a boolean, a number, a string. On an array it
  returns \<^verbatim>\<open>{valid: false, message}\<close>. On an object whose \<open>parts\<close> and \<open>labor\<close>, where
  they are arrays, hold no \<^verbatim>\<open>null\<close> and no \<^verbatim>\<open>undefined\<close>, it returns
  \<^verbatim>\<open>{valid: true}\<close> or \<^verbatim>\<open>{valid: false, message}\<close>.
\<close>

theorem validateRecipe_returns_or_raises:
  "(\<not> is_object v \<longrightarrow> validateRecipe v = Inl TypeError) \<and>
   (\<exists>m. validateRecipe (JArr xs) = Inr (invalid_result m)) \<and>
   (no_nullish_elems (col kvs ''parts'') \<and> no_nullish_elems (col kvs ''labor'') \<longrightarrow>
      validateRecipe (JObj kvs) = Inr ok_result \<or>
      (\<exists>m. validateRecipe (JObj kvs) = Inr (invalid_result m))) \<and>
   (validateRecipe w = Inl TypeError \<or> validateRecipe w = Inr ok_result \<or>
      (\<exists>m. validateRecipe w = Inr (invalid_result m)))"
proof (intro conjI impI)
  show "validateRecipe v = Inl TypeError" if "\<not> is_object v"
    using that by (rule validateRecipe_not_object)
  show "\<exists>m. validateRecipe (JArr xs) = Inr (invalid_result m)"
    by (rule validateRecipe_array)
  show "validateRecipe (JObj kvs) = Inr ok_result \<or>
        (\<exists>m. validateRecipe (JObj kvs) = Inr (invalid_result m))"
    if "no_nullish_elems (col kvs ''parts'') \<and> no_nullish_elems (col kvs ''labor'')"
  proof -
    from that obtain r where "validateRecipe (JObj kvs) = Inr r"
      using validateRecipe_object_returns by blast
    with validateRecipe_forms [of "JObj kvs" r] show ?thesis by auto
  qed
  show "validateRecipe w = Inl TypeError \<or> validateRecipe w = Inr ok_result \<or>
        (\<exists>m. validateRecipe w = Inr (invalid_result m))"
    by (rule validateRecipe_outcomes)
qed

text \<open>
  On a number it raises; the empty array and the empty object are invalid; the example
  payload is valid.
\<close>

theorem validateRecipe_returns_or_raises_example:
  "validateRecipe (JNum 5) = Inl TypeError \<and>
   (\<exists>m. validateRecipe (JArr []) = Inr (invalid_result m)) \<and>
   (\<exists>m. validateRecipe (JObj []) = Inr (invalid_result m)) \<and>
   validateRecipe (example_payload example_dims (JArr [example_part (JNum 2) (JNum 5)])
     (JNum (1 / 5))) = Inr ok_result"
proof -
  have "\<not> is_object (JNum 5)"
    by simp
  moreover have "no_nullish_elems (col [] ''parts'') \<and> no_nullish_elems (col [] ''labor'')"
    by (simp add: col_def)
  moreover have "validateRecipe (JObj []) \<noteq> Inr ok_result"
    by (simp add: validateRecipe_ok_iff spec_full_ok_def requiredFields_def)
  moreover have "validateRecipe (example_payload example_dims
      (JArr [example_part (JNum 2) (JNum 5)]) (JNum (1 / 5))) = Inr ok_result"
    by (simp add: example_payload_ok example_dims_ok example_part_ok)
  ultimately show ?thesis
    using validateRecipe_returns_or_raises [of "JNum 5" "[]" "[]" JNull] by blast
qed

text \<open>
  The claim as stated, that no input makes \<open>validateRecipe\<close> raise, fails on the
  payload \<^verbatim>\<open>null\<close>, and on a complete payload whose \<open>parts\<close> is \<^verbatim>\<open>[null]\<close>.
\<close>

theorem validateRecipe_raises_on_null:
  "validateRecipe JNull = Inl TypeError \<and>
   validateRecipe (example_payload example_dims (JArr [JNull]) (JNum (1 / 5))) = Inl TypeError"
proof
  show "validateRecipe JNull = Inl TypeError"
    by (simp add: validateRecipe_not_object)
  show "validateRecipe (example_payload example_dims (JArr [JNull]) (JNum (1 / 5)))
          = Inl TypeError"
    unfolding example_payload_def validateRecipe_obj Let_def
    by (simp add: requiredFields_def col_def example_dims_def part_invalid_cases js_or_else_Inl)
qed

subsection \<open>Full validation: zero in dimensions, zero in parts and labor\<close>

lemma zero_dim_not_ok:
  "col d ''length'' = JNum 0 \<or> col d ''width'' = JNum 0 \<or> col d ''height'' = JNum 0 \<or>
   col d ''unit'' = JNum 0 \<Longrightarrow> \<not> spec_dims_ok (JObj d)"
  by auto

text \<open>
  Claim C5. Full validation accepts an object exactly when the required fields are
  present, the dimensions are an object with truthy \<open>length\<close>, \<open>width\<close>, \<open>height\<close> and
  \<open>unit\<close>, and every part and labor entry has a truthy name (type) and two fields that
  are not \<^verbatim>\<open>undefined\<close> (\<open>spec_full_ok\<close>). So a payload is rejected when a field of its
  dimensions is 0, or falsy otherwise; a part is rejected exactly when its name is falsy
  or its \<open>quantity\<close> or \<open>cost_per_unit\<close> is \<^verbatim>\<open>undefined\<close>, and likewise a labor entry; a
  part or a labor entry with a name and both numbers 0 is accepted.
\<close>

theorem validateRecipe_zero_asymmetry:
  "((validateRecipe (JObj kvs) = Inr ok_result) = spec_full_ok kvs) \<and>
   (\<not> spec_dims_ok (col kvs ''dimensions'') \<longrightarrow>
      (\<exists>m. validateRecipe (JObj kvs) = Inr (invalid_result m))) \<and>
   (col d ''length'' = JNum 0 \<or> col d ''width'' = JNum 0 \<or> col d ''height'' = JNum 0 \<or>
      col d ''unit'' = JNum 0 \<longrightarrow> \<not> spec_dims_ok (JObj d)) \<and>
   part_invalid (JObj p) =
     Inr (\<not> (truthy (col p ''name'') \<and> col p ''quantity'' \<noteq> JUndefined \<and>
              col p ''cost_per_unit'' \<noteq> JUndefined)) \<and>
   labor_invalid (JObj l) =
     Inr (\<not> (truthy (col l ''type'') \<and> col l ''cost_per_hour'' \<noteq> JUndefined \<and>
              col l ''hours_needed'' \<noteq> JUndefined)) \<and>
   spec_part_ok
     (JObj [(''name'', JStr (c # cs)), (''quantity'', JNum 0), (''cost_per_unit'', JNum 0)]) \<and>
   spec_labor_ok
     (JObj [(''type'', JStr (c # cs)), (''cost_per_hour'', JNum 0), (''hours_needed'', JNum 0)])"
proof (intro conjI impI)
  show "(validateRecipe (JObj kvs) = Inr ok_result) = spec_full_ok kvs"
    by (rule validateRecipe_ok_iff)
  show "\<exists>m. validateRecipe (JObj kvs) = Inr (invalid_result m)"
    if "\<not> spec_dims_ok (col kvs ''dimensions'')"
    using that by (rule validateRecipe_bad_dims)
  show "\<not> spec_dims_ok (JObj d)"
    if "col d ''length'' = JNum 0 \<or> col d ''width'' = JNum 0 \<or> col d ''height'' = JNum 0 \<or>
        col d ''unit'' = JNum 0"
    using that by (rule zero_dim_not_ok)
  show "part_invalid (JObj p) =
     Inr (\<not> (truthy (col p ''name'') \<and> col p ''quantity'' \<noteq> JUndefined \<and>
              col p ''cost_per_unit'' \<noteq> JUndefined))"
    by (simp add: part_invalid_cases)
  show "labor_invalid (JObj l) =
     Inr (\<not> (truthy (col l ''type'') \<and> col l ''cost_per_hour'' \<noteq> JUndefined \<and>
              col l ''hours_needed'' \<noteq> JUndefined))"
    by (simp add: labor_invalid_cases)
  show "spec_part_ok
     (JObj [(''name'', JStr (c # cs)), (''quantity'', JNum 0), (''cost_per_unit'', JNum 0)])"
    by (simp add: col_def)
  show "spec_labor_ok
     (JObj [(''type'', JStr (c # cs)), (''cost_per_hour'', JNum 0), (''hours_needed'', JNum 0)])"
    by (simp add: col_def)
qed

text \<open>
  The example payload with a part of quantity 0 and cost 0 is valid; with a length of 0
  it is invalid; with a part that has no quantity it is not valid.
\<close>

theorem validateRecipe_zero_asymmetry_example:
  "validateRecipe (example_payload example_dims (JArr [example_part (JNum 0) (JNum 0)])
     (JNum (1 / 5))) = Inr ok_result \<and>
   (\<exists>m. validateRecipe
      (example_payload
         (JObj [(''length'', JNum 0), (''width'', JNum 5), (''height'', JNum 3),
                (''unit'', JStr ''cm'')])
         (JArr [example_part (JNum 2) (JNum 5)]) (JNum (1 / 5))) = Inr (invalid_result m)) \<and>
   validateRecipe (example_payload example_dims (JArr [example_part JUndefined (JNum 5)])
     (JNum (1 / 5))) \<noteq> Inr ok_result"
proof -
  let ?zero = "[(''length'', JNum 0), (''width'', JNum 5), (''height'', JNum 3),
                (''unit'', JStr ''cm'')]"
  let ?ps = "JArr [example_part (JNum 2) (JNum 5)]"
  have kvs: "\<exists>kvs. example_payload dims ps waste = JObj kvs \<and> col kvs ''dimensions'' = dims \<and>
               col kvs ''parts'' = ps \<and> col kvs ''labor'' = JArr [example_job] \<and>
               list_all (\<lambda>field. map_of kvs field \<noteq> None) requiredFields"
    for dims ps waste
    by (simp add: example_payload_def col_def requiredFields_def)
  have job: "spec_labor_ok example_job"
    by (simp add: example_job_def col_def)
  have zero: "col ?zero ''length'' = JNum 0"
    by (simp add: col_def)
  have dims: "spec_dims_ok example_dims"
    by (rule example_dims_ok)
  obtain k1 where k1: "example_payload example_dims (JArr [example_part (JNum 0) (JNum 0)])
      (JNum (1 / 5)) = JObj k1" "spec_full_ok k1"
    using kvs [of example_dims "JArr [example_part (JNum 0) (JNum 0)]" "JNum (1 / 5)"]
      dims job
    by (auto simp: spec_full_ok_def example_part_def col_def)
  obtain k2 where k2: "example_payload (JObj ?zero) ?ps (JNum (1 / 5)) = JObj k2"
      "col k2 ''dimensions'' = JObj ?zero"
    using kvs [of "JObj ?zero" ?ps "JNum (1 / 5)"] by auto
  obtain k3 where k3: "example_payload example_dims (JArr [example_part JUndefined (JNum 5)])
      (JNum (1 / 5)) = JObj k3" "\<not> spec_full_ok k3"
    using kvs [of example_dims "JArr [example_part JUndefined (JNum 5)]" "JNum (1 / 5)"]
    by (auto simp: spec_full_ok_def example_part_def col_def)
  show ?thesis
    using validateRecipe_zero_asymmetry [of k1 ?zero] validateRecipe_zero_asymmetry [of k2 ?zero]
      validateRecipe_zero_asymmetry [of k3 ?zero] zero
    unfolding k1(1) k2(1) k3(1)
    by (simp add: k1(2) k2(2) k3(2))
qed

subsection \<open>Partial validation\<close>

text \<open>
  Partial validation accepts an object exactly when the rules of \<open>partial_accepts\<close>
  hold: the empty object is valid, a payload whose waste factor is 1 never is, and what
  is returned is \<^verbatim>\<open>{valid: true}\<close> or \<^verbatim>\<open>{valid: false, message}\<close>.
\<close>

lemma validatePartialRecipe_accepts:
  "((validatePartialRecipe (JObj kvs) = Inr ok_result) = partial_accepts kvs) \<and>
   validatePartialRecipe (JObj []) = Inr ok_result \<and>
   (col kvs ''waste_factor'' = JNum 1 \<longrightarrow> validatePartialRecipe (JObj kvs) \<noteq> Inr ok_result) \<and>
   (validatePartialRecipe v = Inr r \<longrightarrow> r = ok_result \<or> (\<exists>m. r = invalid_result m))"
proof (intro conjI impI)
  show iff: "(validatePartialRecipe (JObj kvs) = Inr ok_result) = partial_accepts kvs"
    by (rule validatePartialRecipe_ok_iff)
  show "validatePartialRecipe (JObj []) = Inr ok_result"
    by (simp add: validatePartialRecipe_ok_iff partial_accepts_def absent_or_def col_def)
  show "validatePartialRecipe (JObj kvs) \<noteq> Inr ok_result" if "col kvs ''waste_factor'' = JNum 1"
    using that by (simp add: validatePartialRecipe_ok_iff partial_accepts_def absent_or_def)
  show "r = ok_result \<or> (\<exists>m. r = invalid_result m)" if "validatePartialRecipe v = Inr r"
    using that by (rule validatePartialRecipe_forms)
qed

section \<open>Properties of the repository\<close>

subsection \<open>The rows a loop inserts\<close>

lemma bind_args_part:
  "bind_args x part_args = Inr r \<Longrightarrow> r = map (\<lambda>c. (c, prop_of x c)) part_cols"
  by (auto simp: part_args_def part_cols_def prop_of_def bind_err_def split: sum.splits)

lemma bind_args_labor:
  "bind_args x labor_args = Inr r \<Longrightarrow> r = map (\<lambda>c. (c, prop_of x c)) labor_cols"
  by (auto simp: labor_args_def labor_cols_def prop_of_def bind_err_def split: sum.splits)

lemma insert_each_None:
  assumes "\<And>x r. bind_args x args = Inr r \<Longrightarrow> r = map (\<lambda>c. (c, prop_of x c)) cols"
  shows "insert_each rid args xs table = (None, t) \<Longrightarrow> t = table @ map (child_row rid cols) xs"
proof (induction xs arbitrary: table)
  case Nil
  then show ?case by simp
next
  case (Cons x xs)
  from Cons.prems obtain r where r: "bind_args x args = Inr r"
    and rest: "insert_each rid args xs (table @ [(''recipe_id'', JStr rid) # r]) = (None, t)"
    by (auto split: sum.splits)
  from assms [OF r] have "(''recipe_id'', JStr rid) # r = child_row rid cols x"
    by (simp add: child_row_def)
  with Cons.IH [OF rest] show ?case by simp
qed

lemma insert_children_None:
  assumes "\<And>x r. bind_args x args = Inr r \<Longrightarrow> r = map (\<lambda>c. (c, prop_of x c)) cols"
  shows "insert_children rid args (Inr (JArr xs)) table = (None, t) \<Longrightarrow>
         t = table @ map (child_row rid cols) xs"
  by (simp add: insert_children_def insert_each_None [OF assms])

lemma insert_children_parts:
  "insert_children rid part_args (Inr (JArr xs)) table = (None, t) \<Longrightarrow>
   t = table @ map (child_row rid part_cols) xs"
  by (erule insert_children_None [rotated]) (rule bind_args_part)

lemma insert_children_labor:
  "insert_children rid labor_args (Inr (JArr xs)) table = (None, t) \<Longrightarrow>
   t = table @ map (child_row rid labor_cols) xs"
  by (erule insert_children_None [rotated]) (rule bind_args_labor)

text \<open>Reading the rows of a recipe back, after its old rows went and the new ones came.\<close>

lemma select_replaced_parts:
  "select_children part_cols rid (without_recipe rid table @ map (child_row rid part_cols) xs) =
     map (\<lambda>x. JObj (map (\<lambda>c. (c, prop_of x c)) part_cols)) xs"
  by (simp add: select_children_def without_recipe_def child_row_def part_cols_def col_is_def
      col_def comp_def)

lemma select_replaced_labor:
  "select_children labor_cols rid (without_recipe rid table @ map (child_row rid labor_cols) xs) =
     map (\<lambda>x. JObj (map (\<lambda>c. (c, prop_of x c)) labor_cols)) xs"
  by (simp add: select_children_def without_recipe_def child_row_def labor_cols_def col_is_def
      col_def comp_def)

subsection \<open>Updates\<close>

lemma merged_prop:
  "k \<noteq> ''updated_at'' \<Longrightarrow> k \<noteq> ''id'' \<Longrightarrow> map_of kvs k = Some v \<Longrightarrow>
   get_prop (JObj ([(''updated_at'', a), (''id'', b)] @ kvs @ rest)) k = Inr v"
  by (simp add: map_add_def)

lemma updateRecipe_parts_kept:
  assumes "updateRecipe rid (JObj kvs) now db = (res, db')" and "map_of kvs ''parts'' = None"
  shows "recipe_parts db' = recipe_parts db"
  using assms unfolding updateRecipe_def Let_def
  by (auto simp: get_prop_obj col_def split: if_splits sum.splits prod.splits option.splits
      simp del: get_prop.simps)

lemma updateRecipe_labor_kept:
  assumes "updateRecipe rid (JObj kvs) now db = (res, db')" and "map_of kvs ''labor'' = None"
  shows "recipe_labor db' = recipe_labor db"
  using assms unfolding updateRecipe_def Let_def
  by (auto simp: get_prop_obj col_def split: if_splits sum.splits prod.splits option.splits
      simp del: get_prop.simps)

lemma updateRecipe_parts_replaced:
  assumes "updateRecipe rid (JObj kvs) now db = (Inr r, db')" and "truthy r"
    and "map_of kvs ''parts'' = Some (JArr ps)"
  shows "recipe_parts db' = without_recipe rid (recipe_parts db) @ map (child_row rid part_cols) ps"
proof -
  have m: "get_prop (JObj ([(''updated_at'', JStr now), (''id'', JStr rid)] @ kvs @ rest)) ''parts''
             = Inr (JArr ps)" for rest
    using assms(3) by (intro merged_prop) simp_all
  have g: "get_prop (JObj kvs) ''parts'' = Inr (JArr ps)"
    using assms(3) by simp
  show ?thesis
    using assms(1,2) unfolding updateRecipe_def Let_def without_recipe_def
    by (auto simp: m g split: if_splits sum.splits prod.splits option.splits
        dest!: insert_children_parts
        simp del: get_prop.simps append.simps)
qed

lemma updateRecipe_labor_replaced:
  assumes "updateRecipe rid (JObj kvs) now db = (Inr r, db')" and "truthy r"
    and "map_of kvs ''labor'' = Some (JArr ls)"
  shows "recipe_labor db' = without_recipe rid (recipe_labor db) @ map (child_row rid labor_cols) ls"
proof -
  have m: "get_prop (JObj ([(''updated_at'', JStr now), (''id'', JStr rid)] @ kvs @ rest)) ''labor''
             = Inr (JArr ls)" for rest
    using assms(3) by (intro merged_prop) simp_all
  have g: "get_prop (JObj kvs) ''labor'' = Inr (JArr ls)"
    using assms(3) by simp
  show ?thesis
    using assms(1,2) unfolding updateRecipe_def Let_def without_recipe_def
    by (auto simp: m g split: if_splits sum.splits prod.splits option.splits
        dest!: insert_children_labor
        simp del: get_prop.simps append.simps)
qed

lemmas repository_defs =
  createRecipe_def updateRecipe_def getRecipeById_def insert_children_def recipe_args_def
  part_args_def labor_args_def part_cols_def labor_cols_def select_children_def col_is_def
  col_def js_or_def update_row_def Let_def

lemmas example_defs =
  example_payload_def example_dims_def example_part_def example_job_def bad_payload_def
  empty_db_def example_db_def

lemma example_update_parts:
  "\<exists>r. fst (updateRecipe ''r1'' (JObj [(''parts'', JArr [example_part (JNum 7) (JNum 0)])])
            ''t1'' example_db) = Inr r \<and> truthy r"
  by (simp add: repository_defs example_defs)

text \<open>
  Claim C7. An update whose payload has no \<open>parts\<close> key leaves the parts table as it
  was, and one with no \<open>labor\<close> key the labor table: so does an update of the waste
  factor alone. An update that succeeds on an existing recipe and whose payload has a
  \<open>parts\<close> key replaces the recipe's parts: its old rows are gone, the rows of the other
  recipes stay, and what is read back for the recipe is the new list, in order. Likewise
  for \<open>labor\<close>.
\<close>

theorem updateRecipe_replaces_only_supplied:
  assumes "updateRecipe rid (JObj kvs) now db = (res, db')"
  shows "(map_of kvs ''parts'' = None \<longrightarrow> recipe_parts db' = recipe_parts db) \<and>
         (map_of kvs ''labor'' = None \<longrightarrow> recipe_labor db' = recipe_labor db) \<and>
         (\<forall>r ps. res = Inr r \<and> truthy r \<and> map_of kvs ''parts'' = Some (JArr ps) \<longrightarrow>
            recipe_parts db' =
              without_recipe rid (recipe_parts db) @ map (child_row rid part_cols) ps \<and>
            select_children part_cols rid (recipe_parts db') =
              map (\<lambda>x. JObj (map (\<lambda>c. (c, prop_of x c)) part_cols)) ps) \<and>
         (\<forall>r ls. res = Inr r \<and> truthy r \<and> map_of kvs ''labor'' = Some (JArr ls) \<longrightarrow>
            recipe_labor db' =
              without_recipe rid (recipe_labor db) @ map (child_row rid labor_cols) ls \<and>
            select_children labor_cols rid (recipe_labor db') =
              map (\<lambda>x. JObj (map (\<lambda>c. (c, prop_of x c)) labor_cols)) ls)"
proof (intro conjI impI allI)
  show "recipe_parts db' = recipe_parts db" if "map_of kvs ''parts'' = None"
    using assms that by (rule updateRecipe_parts_kept)
  show "recipe_labor db' = recipe_labor db" if "map_of kvs ''labor'' = None"
    using assms that by (rule updateRecipe_labor_kept)
next
  fix r ps
  assume a: "res = Inr r \<and> truthy r \<and> map_of kvs ''parts'' = Some (JArr ps)"
  then have t: "truthy r" and k: "map_of kvs ''parts'' = Some (JArr ps)"
    by simp_all
  from a assms have "updateRecipe rid (JObj kvs) now db = (Inr r, db')"
    by simp
  then show p: "recipe_parts db' =
      without_recipe rid (recipe_parts db) @ map (child_row rid part_cols) ps"
    using t k by (rule updateRecipe_parts_replaced)
  show "select_children part_cols rid (recipe_parts db') =
      map (\<lambda>x. JObj (map (\<lambda>c. (c, prop_of x c)) part_cols)) ps"
    unfolding p by (rule select_replaced_parts)
next
  fix r ls
  assume a: "res = Inr r \<and> truthy r \<and> map_of kvs ''labor'' = Some (JArr ls)"
  then have t: "truthy r" and k: "map_of kvs ''labor'' = Some (JArr ls)"
    by simp_all
  from a assms have "updateRecipe rid (JObj kvs) now db = (Inr r, db')"
    by simp
  then show l: "recipe_labor db' =
      without_recipe rid (recipe_labor db) @ map (child_row rid labor_cols) ls"
    using t k by (rule updateRecipe_labor_replaced)
  show "select_children labor_cols rid (recipe_labor db') =
      map (\<lambda>x. JObj (map (\<lambda>c. (c, prop_of x c)) labor_cols)) ls"
    unfolding l by (rule select_replaced_labor)
qed

text \<open>
  In the example store, updating the waste factor of \<open>r1\<close> keeps both tables; updating
  its parts to one new part leaves that part alone to be read back for \<open>r1\<close>.
\<close>

theorem updateRecipe_replaces_only_supplied_example:
  "recipe_parts (snd (updateRecipe ''r1'' (JObj [(''waste_factor'', JNum (1 / 10))]) ''t1''
      example_db)) = recipe_parts example_db \<and>
   recipe_labor (snd (updateRecipe ''r1'' (JObj [(''waste_factor'', JNum (1 / 10))]) ''t1''
      example_db)) = recipe_labor example_db \<and>
   select_children part_cols ''r1''
     (recipe_parts (snd (updateRecipe ''r1''
        (JObj [(''parts'', JArr [example_part (JNum 7) (JNum 0)])]) ''t1'' example_db))) =
     [example_part (JNum 7) (JNum 0)]"
proof -
  let ?w = "updateRecipe ''r1'' (JObj [(''waste_factor'', JNum (1 / 10))]) ''t1'' example_db"
  let ?p = "updateRecipe ''r1'' (JObj [(''parts'', JArr [example_part (JNum 7) (JNum 0)])])
              ''t1'' example_db"
  have w: "?w = (fst ?w, snd ?w)" and p: "?p = (fst ?p, snd ?p)"
    by simp_all
  obtain r where r: "fst ?p = Inr r" "truthy r"
    using example_update_parts by blast
  have new: "map (\<lambda>x. JObj (map (\<lambda>c. (c, prop_of x c)) part_cols))
               [example_part (JNum 7) (JNum 0)] = [example_part (JNum 7) (JNum 0)]"
    by (simp add: part_cols_def prop_of_def example_part_def)
  have key: "map_of [(''parts'', JArr [example_part (JNum 7) (JNum 0)])] ''parts'' =
               Some (JArr [example_part (JNum 7) (JNum 0)])"
    by simp
  have kept: "recipe_parts (snd ?w) = recipe_parts example_db \<and>
              recipe_labor (snd ?w) = recipe_labor example_db"
    using updateRecipe_replaces_only_supplied [OF w] by simp
  have "select_children part_cols ''r1'' (recipe_parts (snd ?p)) =
          map (\<lambda>x. JObj (map (\<lambda>c. (c, prop_of x c)) part_cols))
            [example_part (JNum 7) (JNum 0)]"
    using updateRecipe_replaces_only_supplied [OF p] r key by blast
  with kept show ?thesis
    by (simp only: new)
qed

subsection \<open>Deletion\<close>


subsection \<open>An update with null dimensions\<close>

text \<open>
  Claim C6 does not hold of the code where \<open>dimensions\<close> is present and falsy. Full
  validation rejects a payload whose dimensions are \<^verbatim>\<open>null\<close> (line 65,
  \<^verbatim>\<open>!dims || ...\<close>); partial validation, with the same message to give, guards the
  test by \<^verbatim>\<open>dims && (...)\<close> (line 83) and accepts \<^verbatim>\<open>{dimensions: null}\<close>, and
  \<^verbatim>\<open>{dimensions: 0}\<close> too. The accepted payload then makes \<open>updateRecipe\<close> raise at
  \<^verbatim>\<open>updatedRecipe.dimensions.length\<close>, before any statement runs: \<^verbatim>\<open>PUT\<close> answers 500
  and the store is as it was.
\<close>

theorem validatePartialRecipe_accepts_null_dimensions:
  "validatePartialRecipe (JObj [(''dimensions'', JNull)]) = Inr ok_result \<and>
   validatePartialRecipe (JObj [(''dimensions'', JNum 0)]) = Inr ok_result \<and>
   validateRecipe (example_payload JNull (JArr [example_part (JNum 2) (JNum 5)]) (JNum (1 / 5)))
     = Inr (invalid_result dims_message) \<and>
   updateRecipe ''r1'' (JObj [(''dimensions'', JNull)]) ''t1'' example_db
     = (Inl TypeError, example_db) \<and>
   put_recipe ''r1'' (JObj [(''dimensions'', JNull)]) ''t1'' example_db
     = (went_wrong, example_db)"
proof (intro conjI)
  show ok: "validatePartialRecipe (JObj [(''dimensions'', JNull)]) = Inr ok_result"
    by (simp add: validatePartialRecipe_def)
  show "validatePartialRecipe (JObj [(''dimensions'', JNum 0)]) = Inr ok_result"
    by (simp add: validatePartialRecipe_def)
  show "validateRecipe (example_payload JNull (JArr [example_part (JNum 2) (JNum 5)])
          (JNum (1 / 5))) = Inr (invalid_result dims_message)"
    unfolding example_payload_def validateRecipe_obj Let_def
    by (simp add: requiredFields_def col_def)
  show raise: "updateRecipe ''r1'' (JObj [(''dimensions'', JNull)]) ''t1'' example_db
      = (Inl TypeError, example_db)"
    by (simp add: repository_defs example_defs)
  show "put_recipe ''r1'' (JObj [(''dimensions'', JNull)]) ''t1'' example_db
      = (went_wrong, example_db)"
    unfolding put_recipe_def ok raise by (simp add: ok_result_def)
qed

subsection \<open>The waste factor of a created recipe\<close>

text \<open>
  Claim C8 does not hold of the create path: full validation tests only that
  \<open>waste_factor\<close> is present, whatever its value. The complete payload with a waste
  factor of 1.5 is valid; \<^verbatim>\<open>POST\<close> answers 201 and stores the recipe with the waste
  factor 1.5, which is read back. The update path refuses the same value: \<^verbatim>\<open>PUT\<close> with a
  waste factor of 1.5 answers 400 and leaves the store as it was.
\<close>

theorem post_recipe_stores_waste_factor_above_one:
  "validateRecipe (example_payload example_dims (JArr [example_part (JNum 2) (JNum 5)]) waste)
     = Inr ok_result \<and>
   status (fst (post_recipe bad_payload ''r1'' ''t0'' empty_db)) = 201 \<and>
   get_prop (body (fst (post_recipe bad_payload ''r1'' ''t0'' empty_db))) ''waste_factor''
     = Inr (JNum (3 / 2)) \<and>
   map (\<lambda>r. col r ''waste_factor'') (recipes (snd (post_recipe bad_payload ''r1'' ''t0'' empty_db)))
     = [JNum (3 / 2)] \<and>
   put_recipe ''r1'' (JObj [(''waste_factor'', JNum (3 / 2))]) ''t1'' example_db =
     (sendJSON (error_body (Some ''Waste factor must be a number between 0 and 1'')) 400,
      example_db)"
proof (intro conjI)
  show ok: "validateRecipe (example_payload example_dims (JArr [example_part (JNum 2) (JNum 5)])
      waste) = Inr ok_result" for waste
    by (simp add: example_payload_ok example_dims_ok example_part_ok)
  have bad: "validateRecipe bad_payload = Inr ok_result"
    unfolding bad_payload_def by (rule ok)
  show "status (fst (post_recipe bad_payload ''r1'' ''t0'' empty_db)) = 201"
    unfolding post_recipe_def bad
    by (simp add: ok_result_def sendJSON_def repository_defs example_defs)
  show "get_prop (body (fst (post_recipe bad_payload ''r1'' ''t0'' empty_db))) ''waste_factor''
     = Inr (JNum (3 / 2))"
    unfolding post_recipe_def bad
    by (simp add: ok_result_def sendJSON_def repository_defs example_defs)
  show "map (\<lambda>r. col r ''waste_factor'')
      (recipes (snd (post_recipe bad_payload ''r1'' ''t0'' empty_db))) = [JNum (3 / 2)]"
    unfolding post_recipe_def bad
    by (simp add: ok_result_def sendJSON_def repository_defs example_defs)
  show "put_recipe ''r1'' (JObj [(''waste_factor'', JNum (3 / 2))]) ''t1'' example_db =
     (sendJSON (error_body (Some ''Waste factor must be a number between 0 and 1'')) 400,
      example_db)"
    by (simp add: put_recipe_def validatePartialRecipe_def invalid_result_def)
qed


end
